theory Spec2Isabelle
  imports Main "HOL-Library.Word" "HOL-Library.Log_Nat"
begin

section \<open>The OusterDriver nodelet (os_driver_nodelet.cpp)\<close>

text \<open>
  The nodelet wires a sensor's packet stream to ROS publishers. \<open>create_publishers\<close> reads
  the node's parameters, advertises the topics and builds the two packet handlers;
  \<open>on_lidar_packet_msg\<close> and \<open>on_imu_packet_msg\<close> forward one raw packet each. The three
  lambdas handed to the point cloud, laser scan and image processors publish a finished
  frame or drop it. The model below follows the file block by block. Publishing and
  warning are effects on the outside world; the model records them, in order, in two
  fields of the driver's state. The remaining members of the class, the destructor and
  \<open>on_metadata_updated\<close>, only call into the base class and the transforms broadcaster
  and are left out.
\<close>

subsection \<open>Types declared outside the file\<close>

text \<open>
  \<open>sensor::ChanField\<close> and \<open>UDPProfileLidar\<close> are enums of the sensor SDK. Only the
  enumerators this file names are listed; the remaining profiles are \<open>PROFILE_OTHER\<close>.
\<close>

datatype ChanField =
  RANGE | RANGE2 | SIGNAL | SIGNAL2 | REFLECTIVITY | REFLECTIVITY2 | NEAR_IR

datatype UDPProfileLidar = PROFILE_RNG15_RFL8_NIR8 | PROFILE_OTHER nat

text \<open>
  \<open>sensor::sensor_info\<close>, read here only through \<open>get_n_returns(info)\<close> (an \<open>int\<close>),
  \<open>get_beams_count(info)\<close> (a \<open>size_t\<close>) and \<open>info.format.udp_profile_lidar\<close>.
\<close>

record sensor_info =
  get_n_returns :: int
  get_beams_count :: nat
  udp_profile_lidar :: UDPProfileLidar

text \<open>\<open>OusterTransformsBroadcaster\<close>, read through its four accessors.\<close>

record OusterTransformsBroadcaster =
  imu_frame_id :: string
  point_cloud_frame_id :: string
  lidar_frame_id :: string
  apply_lidar_to_sensor_transform :: bool

text \<open>
  The helpers \<open>topic_for_return\<close> (os_ros.h) and
  \<open>PointCloudProcessorFactory::point_type_requires_intensity\<close> are parameters of the model.
\<close>

record externals =
  topic_for_return :: "string \<Rightarrow> int \<Rightarrow> string"
  point_type_requires_intensity :: "string \<Rightarrow> bool"

text \<open>
  A \<open>ros::Publisher\<close> is either default-constructed or the result of
  \<open>nh.advertise(topic, queue_size)\<close>.
\<close>

datatype Publisher = Invalid_Publisher | Advertised string nat

definition advertise :: "string \<Rightarrow> nat \<Rightarrow> Publisher" where
  "advertise topic queue_size = Advertised topic queue_size"

subsection \<open>IEEE-754 binary64 values\<close>

text \<open>
  \<open>ptp_utc_tai_offset\<close> is a \<open>double\<close>. \<open>Finite m e\<close> stands for the number
  \<open>m * 2 ^ e\<close> (the sign of a zero is not kept: no operation of this file observes it).
  \<open>round_to_double m e\<close> is the binary64 nearest to \<open>m * 2 ^ e\<close>, ties to even: at most
  53 bits of mantissa, no exponent below \<open>-1074\<close>, and infinity from \<open>2 ^ 1024\<close> on.
\<close>

datatype double = Finite int int | Infinity bool | NaN

definition round_to_double :: "int \<Rightarrow> int \<Rightarrow> double" where
  "round_to_double m e =
     (let a = \<bar>m\<bar>;
          k = max (bitlen a - 53) (- 1074 - e)
      in if k \<le> 0 then (if 1024 < bitlen a + e then Infinity (m < 0) else Finite m e)
         else
           (let q = a div 2 ^ nat k;
                r = a mod 2 ^ nat k;
                half = 2 ^ nat (k - 1);
                q' = (if half < r \<or> (r = half \<and> odd q) then q + 1 else q)
            in if 1024 < bitlen q' + (e + k) then Infinity (m < 0)
               else Finite (sgn m * q') (e + k)))"

fun double_mult :: "double \<Rightarrow> double \<Rightarrow> double" where
  "double_mult (Finite m1 e1) (Finite m2 e2) = round_to_double (m1 * m2) (e1 + e2)"
| "double_mult NaN y = NaN"
| "double_mult x NaN = NaN"
| "double_mult (Infinity s) (Finite m e) = (if m = 0 then NaN else Infinity (s \<noteq> (m < 0)))"
| "double_mult (Finite m e) (Infinity s) = (if m = 0 then NaN else Infinity (s \<noteq> (m < 0)))"
| "double_mult (Infinity s) (Infinity t) = Infinity (s \<noteq> t)"

text \<open>A literal with an integral value, such as \<open>-37.0\<close> or \<open>1e+9\<close>.\<close>

definition double_of_int :: "int \<Rightarrow> double" where
  "double_of_int n = round_to_double n 0"

subsection \<open>Faults\<close>

text \<open>
  \<^item> \<open>LengthError\<close>: \<open>std::vector::resize\<close> with a negative \<open>int\<close>, which converts to a
    \<open>size_t\<close> above \<open>max_size()\<close> and throws \<open>std::length_error\<close>;
  \<^item> \<open>OutOfBounds\<close>: \<open>operator[]\<close> of a vector past its end (undefined behaviour);
  \<^item> \<open>SignedOverflow\<close>: \<open>beams_count - 1\<close> at the least \<open>int\<close> (undefined behaviour);
  \<^item> \<open>FloatToIntOverflow\<close>: \<open>static_cast<int64_t>\<close> of a NaN, an infinity or a value
    whose truncation is not an \<open>int64_t\<close> (undefined behaviour).
\<close>

datatype fault = LengthError | OutOfBounds | SignedOverflow | FloatToIntOverflow

definition and_then :: "fault + 'a \<Rightarrow> ('a \<Rightarrow> fault + 'b) \<Rightarrow> fault + 'b" where
  "and_then r f = (case r of Inl e \<Rightarrow> Inl e | Inr x \<Rightarrow> f x)"

text \<open>\<open>static_cast<int64_t>(x)\<close>: truncation towards zero.\<close>

definition double_to_int64 :: "double \<Rightarrow> fault + int" where
  "double_to_int64 x =
     (case x of
        Finite m e \<Rightarrow>
          (let t = (if 0 \<le> e then m * 2 ^ nat e else sgn m * (\<bar>m\<bar> div 2 ^ nat (- e)))
           in if - (2 ^ 63) \<le> t \<and> t < 2 ^ 63 then Inr t else Inl FloatToIntOverflow)
      | Infinity s \<Rightarrow> Inl FloatToIntOverflow
      | NaN \<Rightarrow> Inl FloatToIntOverflow)"

text \<open>\<open>static_cast<int64_t>(ptp_utc_tai_offset * 1e+9)\<close>, as written twice in the file.\<close>

definition offset_to_ns :: "double \<Rightarrow> fault + int" where
  "offset_to_ns ptp_utc_tai_offset =
     double_to_int64 (double_mult ptp_utc_tai_offset (double_of_int 1000000000))"

subsection \<open>Parameters of the private node handle\<close>

text \<open>
  \<open>pnh.param(name, default)\<close> returns the value stored under the name, or the default.
  A field is \<open>None\<close> when the parameter is not set.
\<close>

record params =
  proc_mask :: "string option"
  timestamp_mode :: "string option"
  ptp_utc_tai_offset :: "double option"
  min_valid_columns_in_scan :: "int option"
  point_type :: "string option"
  scan_ring :: "int option"

definition param :: "'a option \<Rightarrow> 'a \<Rightarrow> 'a" where
  "param stored dflt = (case stored of Some v \<Rightarrow> v | None \<Rightarrow> dflt)"

subsection \<open>Processor mask\<close>

text \<open>
  Modelled from the spec: \<open>impl::parse_tokens\<close> and \<open>impl::check_token\<close> are declared in
  ouster_ros/os_ros.h, which is not among the sources. Section 4.1: given a
  delimiter-separated token string and a fixed delimiter character, produce the set of
  recognized tokens present (case-sensitive exact match against IMU, PCL, SCAN, IMG);
  unrecognized tokens are ignored; a membership test tells whether a token is enabled.
\<close>

fun split_tokens :: "char \<Rightarrow> string \<Rightarrow> string list" where
  "split_tokens delim [] = [[]]"
| "split_tokens delim (c # cs) =
     (if c = delim then [] # split_tokens delim cs
      else (case split_tokens delim cs of
              [] \<Rightarrow> [[c]]
            | t # ts \<Rightarrow> (c # t) # ts))"

definition recognized_tokens :: "string list" where
  "recognized_tokens = [''IMU'', ''PCL'', ''SCAN'', ''IMG'']"

definition parse_tokens :: "string \<Rightarrow> char \<Rightarrow> string set" where
  "parse_tokens input delim =
     set (filter (\<lambda>t. t \<in> set recognized_tokens) (split_tokens delim input))"

definition check_token :: "string set \<Rightarrow> string \<Rightarrow> bool" where
  "check_token tokens token = (token \<in> tokens)"

subsection \<open>Processors and packet handlers\<close>

text \<open>
  The processors and the packet handlers are built by factories of other files. The model
  keeps each as the arguments this file passes to its factory. A callback lambda captures
  \<open>this\<close> and \<open>min_valid_columns_in_scan\<close>; it is kept as the captured threshold, and
  \<open>this\<close> is the driver state the callback is later run on.
\<close>

datatype LidarScanProcessor =
    PointCloudProcessor string sensor_info string bool int
  | LaserScanProcessor sensor_info string int int
  | ImageProcessor sensor_info string int

record ImuPacketHandler =
  imu_info :: sensor_info
  imu_frame :: string
  imu_timestamp_mode :: string
  imu_ptp_utc_tai_offset :: int

record LidarPacketHandler =
  lidar_info :: sensor_info
  lidar_processors :: "LidarScanProcessor list"
  lidar_timestamp_mode :: string
  lidar_ptp_utc_tai_offset :: int

text \<open>The threshold captured by a processor's callback.\<close>

fun captured_min_valid_columns :: "LidarScanProcessor \<Rightarrow> int" where
  "captured_min_valid_columns (PointCloudProcessor pt i f a n) = n"
| "captured_min_valid_columns (LaserScanProcessor i f r n) = n"
| "captured_min_valid_columns (ImageProcessor i f n) = n"

datatype ProcessorKind = PCL | SCAN | IMG

fun processor_kind :: "LidarScanProcessor \<Rightarrow> ProcessorKind" where
  "processor_kind (PointCloudProcessor pt i f a n) = PCL"
| "processor_kind (LaserScanProcessor i f r n) = SCAN"
| "processor_kind (ImageProcessor i f n) = IMG"

subsection \<open>The driver's state\<close>

text \<open>
  The warnings of the file, each with the values its message prints:
  \<^item> \<open>Incomplete_cloud got expected\<close>: "Incomplete cloud, dropping it. Got \<open>got\<close> valid
    columns, expected \<open>expected\<close>.";
  \<^item> \<open>Incompatible_point_type point_type\<close>: "selected point type ... is not compatible
    with the current udp profile: RNG15_RFL8_NIR8";
  \<^item> \<open>Scan_ring_clamped beams_count scan_ring\<close>: "scan ring is set to a value that exceeds
    available range ... ring value clamped to: \<open>scan_ring\<close>".
\<close>

datatype Warning =
    Incomplete_cloud int int
  | Incompatible_point_type string
  | Scan_ring_clamped int int

text \<open>
  The members of \<open>OusterDriver\<close> (with \<open>info\<close> of its base class), then the two records
  of effects: \<open>published\<close> lists every \<open>publish\<close> call as the publisher it was made on and
  the message; \<open>warnings\<close> lists the warnings reported. Messages are of any one type \<open>'m\<close>.
\<close>

record 'm OusterDriver =
  info :: sensor_info
  tf_bcast :: OusterTransformsBroadcaster
  imu_pub :: Publisher
  lidar_pubs :: "Publisher list"
  scan_pubs :: "Publisher list"
  image_pubs :: "ChanField \<rightharpoonup> Publisher"
  imu_packet_handler :: "ImuPacketHandler option"
  lidar_packet_handler :: "LidarPacketHandler option"
  published :: "(Publisher \<times> 'm) list"
  warnings :: "Warning list"

definition publish :: "Publisher \<Rightarrow> 'm \<Rightarrow> 'm OusterDriver \<Rightarrow> 'm OusterDriver" where
  "publish pub msg d = d\<lparr>published := published d @ [(pub, msg)]\<rparr>"

definition warn :: "Warning \<Rightarrow> 'm OusterDriver \<Rightarrow> 'm OusterDriver" where
  "warn w d = d\<lparr>warnings := warnings d @ [w]\<rparr>"

subsection \<open>The output callbacks\<close>

text \<open>
  The output types of the processors (declared in their headers): the messages, which
  the callbacks dereference and which are taken to be there, and the count of valid
  columns. The count is compared with the \<open>int\<close> threshold; the model compares the two
  as integers, which is the comparison C++ makes for a count of a signed type.
\<close>

record 'm PointCloudProcessor_OutputType =
  pc_msgs :: "'m list"
  pc_num_valid_columns :: int

record 'm LaserScanProcessor_OutputType =
  scan_msgs :: "'m list"
  scan_num_valid_columns :: int

text \<open>\<open>image_msgs\<close> is a \<open>std::map\<close>: its entries in the order the iterator visits them.\<close>

record 'm ImageProcessor_OutputType =
  image_msgs :: "(ChanField \<times> 'm) list"
  image_num_valid_columns :: int

text \<open>
  \<open>for (size_t i = 0; i < msgs.size(); ++i) pubs[i].publish(*msgs[i]);\<close> with \<open>pubs\<close>
  one of the vectors \<open>lidar_pubs\<close> and \<open>scan_pubs\<close>, which publishing does not change.
\<close>

function publish_returns ::
  "Publisher list \<Rightarrow> nat \<Rightarrow> 'm list \<Rightarrow> 'm OusterDriver \<Rightarrow> fault + 'm OusterDriver" where
  "publish_returns pubs i msgs d =
     (if i < length msgs
      then (if i < length pubs
            then publish_returns pubs (Suc i) msgs (publish (pubs ! i) (msgs ! i) d)
            else Inl OutOfBounds)
      else Inr d)"
  by pat_completeness auto
termination
  by (relation "measure (\<lambda>(pubs, i, msgs, d). length msgs - i)") auto

declare publish_returns.simps [simp del]

definition point_cloud_callback ::
  "int \<Rightarrow> 'm PointCloudProcessor_OutputType \<Rightarrow> 'm OusterDriver \<Rightarrow> fault + 'm OusterDriver" where
  "point_cloud_callback min_valid_columns data d =
     (if pc_num_valid_columns data < min_valid_columns
      then Inr (warn (Incomplete_cloud (pc_num_valid_columns data) min_valid_columns) d)
      else publish_returns (lidar_pubs d) 0 (pc_msgs data) d)"

definition laser_scan_callback ::
  "int \<Rightarrow> 'm LaserScanProcessor_OutputType \<Rightarrow> 'm OusterDriver \<Rightarrow> fault + 'm OusterDriver" where
  "laser_scan_callback min_valid_columns data d =
     (if scan_num_valid_columns data < min_valid_columns
      then Inr d
      else publish_returns (scan_pubs d) 0 (scan_msgs data) d)"

text \<open>
  \<open>image_pubs[field]\<close> on a \<open>std::map\<close>: a key that is absent is inserted with a
  default-constructed publisher.
\<close>

definition image_pubs_at :: "ChanField \<Rightarrow> 'm OusterDriver \<Rightarrow> Publisher \<times> 'm OusterDriver" where
  "image_pubs_at field d =
     (case image_pubs d field of
        Some pub \<Rightarrow> (pub, d)
      | None \<Rightarrow> (Invalid_Publisher, d\<lparr>image_pubs := (image_pubs d)(field \<mapsto> Invalid_Publisher)\<rparr>))"

fun publish_images :: "(ChanField \<times> 'm) list \<Rightarrow> 'm OusterDriver \<Rightarrow> 'm OusterDriver" where
  "publish_images [] d = d"
| "publish_images ((field, msg) # rest) d =
     (case image_pubs_at field d of (pub, d') \<Rightarrow> publish_images rest (publish pub msg d'))"

definition image_callback ::
  "int \<Rightarrow> 'm ImageProcessor_OutputType \<Rightarrow> 'm OusterDriver \<Rightarrow> fault + 'm OusterDriver" where
  "image_callback min_valid_columns data d =
     (if image_num_valid_columns data < min_valid_columns
      then Inr d
      else Inr (publish_images (image_msgs data) d))"

subsection \<open>create_publishers\<close>

text \<open>
  The locals that \<open>create_publishers\<close> reads from the parameters, each with the default
  written in the file.
\<close>

definition tokens :: "params \<Rightarrow> string set" where
  "tokens ps = parse_tokens (param (proc_mask ps) ''IMU|IMG|PCL|SCAN'') CHR ''|''"

definition timestamp_mode_local :: "params \<Rightarrow> string" where
  "timestamp_mode_local ps = param (timestamp_mode ps) []"

definition ptp_utc_tai_offset_local :: "params \<Rightarrow> double" where
  "ptp_utc_tai_offset_local ps = param (ptp_utc_tai_offset ps) (double_of_int (- 37))"

definition min_valid_columns_in_scan_local :: "params \<Rightarrow> int" where
  "min_valid_columns_in_scan_local ps = param (min_valid_columns_in_scan ps) 0"

text \<open>
  \<open>pubs.resize(num_returns)\<close> followed by
  \<open>for (int i = 0; i < num_returns; ++i) pubs[i] = nh.advertise(topic_for_return(base, i), 10);\<close>
  After the resize the vector has \<open>num_returns\<close> elements, so every index of the loop
  is in range.
\<close>

definition resize :: "int \<Rightarrow> Publisher list \<Rightarrow> fault + Publisher list" where
  "resize n pubs =
     (if n < 0 then Inl LengthError
      else Inr (take (nat n) pubs @ replicate (nat n - length pubs) Invalid_Publisher))"

function advertise_returns ::
  "(string \<Rightarrow> int \<Rightarrow> string) \<Rightarrow> string \<Rightarrow> int \<Rightarrow> int \<Rightarrow> Publisher list \<Rightarrow> Publisher list" where
  "advertise_returns tfr base num_returns i pubs =
     (if i < num_returns
      then advertise_returns tfr base num_returns (i + 1) (pubs[nat i := advertise (tfr base i) 10])
      else pubs)"
  by pat_completeness auto
termination
  by (relation "measure (\<lambda>(tfr, base, num_returns, i, pubs). nat (num_returns - i))") auto

declare advertise_returns.simps [simp del]

text \<open>The block guarded by \<open>check_token(tokens, "IMU")\<close>.\<close>

definition create_imu_handler :: "params \<Rightarrow> 'm OusterDriver \<Rightarrow> fault + 'm OusterDriver" where
  "create_imu_handler ps d =
     (if check_token (tokens ps) ''IMU''
      then and_then (offset_to_ns (ptp_utc_tai_offset_local ps)) (\<lambda>ns.
             Inr (d\<lparr>imu_pub := advertise ''imu'' 100,
                    imu_packet_handler := Some
                      \<lparr>imu_info = info d, imu_frame = imu_frame_id (tf_bcast d),
                       imu_timestamp_mode = timestamp_mode_local ps,
                       imu_ptp_utc_tai_offset = ns\<rparr>\<rparr>))
      else Inr d)"

text \<open>
  The block guarded by \<open>check_token(tokens, "PCL")\<close>. The state is paired with the local
  vector \<open>processors\<close>.
\<close>

definition create_point_cloud_processor ::
  "externals \<Rightarrow> params \<Rightarrow> int \<Rightarrow>
   'm OusterDriver \<times> LidarScanProcessor list \<Rightarrow> fault + 'm OusterDriver \<times> LidarScanProcessor list" where
  "create_point_cloud_processor ext ps num_returns st =
     (case st of (d, processors) \<Rightarrow>
        if check_token (tokens ps) ''PCL''
        then and_then (resize num_returns (lidar_pubs d)) (\<lambda>pubs.
               let d1 = d\<lparr>lidar_pubs :=
                          advertise_returns (topic_for_return ext) ''points'' num_returns 0 pubs\<rparr>;
                   pt = param (point_type ps) ''original'';
                   processors' = processors @
                     [PointCloudProcessor pt (info d1) (point_cloud_frame_id (tf_bcast d1))
                        (apply_lidar_to_sensor_transform (tf_bcast d1))
                        (min_valid_columns_in_scan_local ps)];
                   d2 = (if point_type_requires_intensity ext pt \<and>
                            udp_profile_lidar (info d1) = PROFILE_RNG15_RFL8_NIR8
                         then warn (Incompatible_point_type pt) d1 else d1)
               in Inr (d2, processors'))
        else Inr (d, processors))"

text \<open>
  The block guarded by \<open>check_token(tokens, "SCAN")\<close>. \<open>static_cast<int>\<close> of the
  \<open>size_t\<close> keeps the low 32 bits, read as two's complement. The parameter \<open>scan_ring\<close>
  is read twice, before the clamp and again for the comparison.
\<close>

definition static_cast_int :: "nat \<Rightarrow> int" where
  "static_cast_int n = sint (word_of_nat n :: 32 word)"

definition clamp_scan_ring :: "int \<Rightarrow> int \<Rightarrow> int" where
  "clamp_scan_ring requested beams_count = min (max requested 0) (beams_count - 1)"

definition create_laser_scan_processor ::
  "externals \<Rightarrow> params \<Rightarrow> int \<Rightarrow>
   'm OusterDriver \<times> LidarScanProcessor list \<Rightarrow> fault + 'm OusterDriver \<times> LidarScanProcessor list" where
  "create_laser_scan_processor ext ps num_returns st =
     (case st of (d, processors) \<Rightarrow>
        if check_token (tokens ps) ''SCAN''
        then and_then (resize num_returns (scan_pubs d)) (\<lambda>pubs.
               let d1 = d\<lparr>scan_pubs :=
                          advertise_returns (topic_for_return ext) ''scan'' num_returns 0 pubs\<rparr>;
                   beams_count = static_cast_int (get_beams_count (info d1))
               in if beams_count = - (2 ^ 31) then Inl SignedOverflow
                  else
                    let ring = clamp_scan_ring (param (scan_ring ps) 0) beams_count;
                        d2 = (if ring \<noteq> param (scan_ring ps) 0
                              then warn (Scan_ring_clamped beams_count ring) d1 else d1)
                    in Inr (d2, processors @
                         [LaserScanProcessor (info d2) (lidar_frame_id (tf_bcast d2)) ring
                            (min_valid_columns_in_scan_local ps)]))
        else Inr (d, processors))"

text \<open>
  The block guarded by \<open>check_token(tokens, "IMG")\<close>. The two constant maps are written
  as their initializer lists. The loop stores one publisher per entry; the keys of each
  list are distinct, so the stored map does not depend on the order of the visit.
\<close>

definition channel_field_topic_map_1 :: "(ChanField \<times> string) list" where
  "channel_field_topic_map_1 =
     [(RANGE, ''range_image''), (SIGNAL, ''signal_image''),
      (REFLECTIVITY, ''reflec_image''), (NEAR_IR, ''nearir_image'')]"

definition channel_field_topic_map_2 :: "(ChanField \<times> string) list" where
  "channel_field_topic_map_2 =
     [(RANGE, ''range_image''), (SIGNAL, ''signal_image''),
      (REFLECTIVITY, ''reflec_image''), (NEAR_IR, ''nearir_image''),
      (RANGE2, ''range_image2''), (SIGNAL2, ''signal_image2''),
      (REFLECTIVITY2, ''reflec_image2'')]"

definition which_map :: "int \<Rightarrow> (ChanField \<times> string) list" where
  "which_map num_returns =
     (if num_returns = 1 then channel_field_topic_map_1 else channel_field_topic_map_2)"

fun advertise_images ::
  "(ChanField \<times> string) list \<Rightarrow> (ChanField \<rightharpoonup> Publisher) \<Rightarrow> (ChanField \<rightharpoonup> Publisher)" where
  "advertise_images [] pubs = pubs"
| "advertise_images ((field, topic) # rest) pubs =
     advertise_images rest (pubs(field \<mapsto> advertise topic 10))"

definition create_image_processor ::
  "params \<Rightarrow> int \<Rightarrow>
   'm OusterDriver \<times> LidarScanProcessor list \<Rightarrow> fault + 'm OusterDriver \<times> LidarScanProcessor list" where
  "create_image_processor ps num_returns st =
     (case st of (d, processors) \<Rightarrow>
        if check_token (tokens ps) ''IMG''
        then let d1 = d\<lparr>image_pubs := advertise_images (which_map num_returns) (image_pubs d)\<rparr>
             in Inr (d1, processors @
                  [ImageProcessor (info d1) (point_cloud_frame_id (tf_bcast d1))
                     (min_valid_columns_in_scan_local ps)])
        else Inr (d, processors))"

text \<open>The last statement: the lidar packet handler over the processors built.\<close>

definition create_lidar_handler ::
  "params \<Rightarrow> 'm OusterDriver \<times> LidarScanProcessor list \<Rightarrow> fault + 'm OusterDriver" where
  "create_lidar_handler ps st =
     (case st of (d, processors) \<Rightarrow>
        if check_token (tokens ps) ''PCL'' \<or> check_token (tokens ps) ''SCAN'' \<or>
           check_token (tokens ps) ''IMG''
        then and_then (offset_to_ns (ptp_utc_tai_offset_local ps)) (\<lambda>ns.
               Inr (d\<lparr>lidar_packet_handler := Some
                      \<lparr>lidar_info = info d, lidar_processors = processors,
                       lidar_timestamp_mode = timestamp_mode_local ps,
                       lidar_ptp_utc_tai_offset = ns\<rparr>\<rparr>))
        else Inr d)"

definition create_publishers ::
  "externals \<Rightarrow> params \<Rightarrow> 'm OusterDriver \<Rightarrow> fault + 'm OusterDriver" where
  "create_publishers ext ps d =
     and_then (create_imu_handler ps d) (\<lambda>d1.
       let num_returns = get_n_returns (info d1)
       in and_then (create_point_cloud_processor ext ps num_returns (d1, [])) (\<lambda>st2.
          and_then (create_laser_scan_processor ext ps num_returns st2) (\<lambda>st3.
          and_then (create_image_processor ps num_returns st3) (\<lambda>st4.
          create_lidar_handler ps st4))))"

subsection \<open>Packet entry points\<close>

text \<open>
  A \<open>std::function\<close> member is empty until \<open>create_publishers\<close> assigns it. What a
  handler does with a packet is code of imu_packet_handler.h and lidar_packet_handler.h;
  it is the parameter \<open>run\<close>. The lidar handler reaches the output callbacks, so it acts
  on the driver's state and may fault; the IMU handler returns the message to publish.
\<close>

definition on_lidar_packet_msg ::
  "(LidarPacketHandler \<Rightarrow> 8 word list \<Rightarrow> 'm OusterDriver \<Rightarrow> fault + 'm OusterDriver) \<Rightarrow>
   8 word list \<Rightarrow> 'm OusterDriver \<Rightarrow> fault + 'm OusterDriver" where
  "on_lidar_packet_msg run raw_lidar_packet d =
     (case lidar_packet_handler d of
        None \<Rightarrow> Inr d
      | Some handler \<Rightarrow> run handler raw_lidar_packet d)"

definition on_imu_packet_msg ::
  "(ImuPacketHandler \<Rightarrow> 8 word list \<Rightarrow> 'm) \<Rightarrow> 8 word list \<Rightarrow> 'm OusterDriver \<Rightarrow> 'm OusterDriver" where
  "on_imu_packet_msg run raw_imu_packet d =
     (case imu_packet_handler d of
        None \<Rightarrow> d
      | Some handler \<Rightarrow> publish (imu_pub d) (run handler raw_imu_packet) d)"

text \<open>
  The call made on a processor's callback when the processor has a frame to hand over:
  the lambda of the processor's kind, with its captured threshold.
\<close>

datatype 'm OutputFrame =
    PointCloudFrame "'m PointCloudProcessor_OutputType"
  | LaserScanFrame "'m LaserScanProcessor_OutputType"
  | ImageFrame "'m ImageProcessor_OutputType"

fun output_callback ::
  "int \<Rightarrow> 'm OutputFrame \<Rightarrow> 'm OusterDriver \<Rightarrow> fault + 'm OusterDriver" where
  "output_callback min_valid_columns (PointCloudFrame data) d =
     point_cloud_callback min_valid_columns data d"
| "output_callback min_valid_columns (LaserScanFrame data) d =
     laser_scan_callback min_valid_columns data d"
| "output_callback min_valid_columns (ImageFrame data) d =
     image_callback min_valid_columns data d"

fun valid_column_count :: "'m OutputFrame \<Rightarrow> int" where
  "valid_column_count (PointCloudFrame data) = pc_num_valid_columns data"
| "valid_column_count (LaserScanFrame data) = scan_num_valid_columns data"
| "valid_column_count (ImageFrame data) = image_num_valid_columns data"

text \<open>The kind of processor that produces a frame.\<close>

fun frame_kind :: "'m OutputFrame \<Rightarrow> ProcessorKind" where
  "frame_kind (PointCloudFrame data) = PCL"
| "frame_kind (LaserScanFrame data) = SCAN"
| "frame_kind (ImageFrame data) = IMG"

subsection \<open>Notions used to state the properties\<close>

text \<open>
  The publisher a field's image goes to: the one stored under the field, or the
  default-constructed one that \<open>image_pubs[field]\<close> inserts for an absent key.
\<close>

definition sink_of :: "(ChanField \<rightharpoonup> Publisher) \<Rightarrow> ChanField \<Rightarrow> Publisher" where
  "sink_of pubs field = (case pubs field of Some pub \<Rightarrow> pub | None \<Rightarrow> Invalid_Publisher)"

text \<open>The messages a frame carries, in the order of its container.\<close>

fun sub_payloads :: "'m OutputFrame \<Rightarrow> 'm list" where
  "sub_payloads (PointCloudFrame data) = pc_msgs data"
| "sub_payloads (LaserScanFrame data) = scan_msgs data"
| "sub_payloads (ImageFrame data) = map snd (image_msgs data)"

text \<open>
  The deliveries of a frame: each message with the publisher it belongs to, the one of
  its return index or of its channel field.
\<close>

fun deliveries :: "'m OutputFrame \<Rightarrow> 'm OusterDriver \<Rightarrow> (Publisher \<times> 'm) list" where
  "deliveries (PointCloudFrame data) d = zip (lidar_pubs d) (pc_msgs data)"
| "deliveries (LaserScanFrame data) d = zip (scan_pubs d) (scan_msgs data)"
| "deliveries (ImageFrame data) d =
     map (\<lambda>(field, msg). (sink_of (image_pubs d) field, msg)) (image_msgs data)"

text \<open>A frame fits the driver when no return index of it is past the vector of publishers.\<close>

fun frame_fits :: "'m OutputFrame \<Rightarrow> 'm OusterDriver \<Rightarrow> bool" where
  "frame_fits (PointCloudFrame data) d = (length (pc_msgs data) \<le> length (lidar_pubs d))"
| "frame_fits (LaserScanFrame data) d = (length (scan_msgs data) \<le> length (scan_pubs d))"
| "frame_fits (ImageFrame data) d = True"

text \<open>The publishers the two return loops leave in \<open>lidar_pubs\<close> and \<open>scan_pubs\<close>.\<close>

definition returns_pubs :: "externals \<Rightarrow> string \<Rightarrow> int \<Rightarrow> Publisher list" where
  "returns_pubs ext base n =
     map (\<lambda>j. Advertised (topic_for_return ext base (int j)) 10) [0..<nat n]"

text \<open>The token that enables a kind of processor.\<close>

fun kind_token :: "ProcessorKind \<Rightarrow> string" where
  "kind_token PCL = ''PCL''"
| "kind_token SCAN = ''SCAN''"
| "kind_token IMG = ''IMG''"

text \<open>The local \<open>scan_ring\<close> after the clamp, and the vector \<open>processors\<close> at the end.\<close>

definition scan_ring_local :: "params \<Rightarrow> 'm OusterDriver \<Rightarrow> int" where
  "scan_ring_local ps d =
     clamp_scan_ring (param (scan_ring ps) 0) (static_cast_int (get_beams_count (info d)))"

definition built_processors :: "params \<Rightarrow> 'm OusterDriver \<Rightarrow> LidarScanProcessor list" where
  "built_processors ps d =
     (if check_token (tokens ps) ''PCL''
      then [PointCloudProcessor (param (point_type ps) ''original'') (info d)
              (point_cloud_frame_id (tf_bcast d)) (apply_lidar_to_sensor_transform (tf_bcast d))
              (min_valid_columns_in_scan_local ps)]
      else []) @
     (if check_token (tokens ps) ''SCAN''
      then [LaserScanProcessor (info d) (lidar_frame_id (tf_bcast d)) (scan_ring_local ps d)
              (min_valid_columns_in_scan_local ps)]
      else []) @
     (if check_token (tokens ps) ''IMG''
      then [ImageProcessor (info d) (point_cloud_frame_id (tf_bcast d))
              (min_valid_columns_in_scan_local ps)]
      else [])"

text \<open>The warnings that report a clamped scan ring.\<close>

fun is_scan_ring_warning :: "Warning \<Rightarrow> bool" where
  "is_scan_ring_warning (Scan_ring_clamped beams_count ring) = True"
| "is_scan_ring_warning w = False"

text \<open>
  Modelled from the spec: the point cloud and laser scan processors are code of
  point_cloud_processor.h and laser_scan_processor.h, which are not among the sources.
  Section 3: the number of return-indexed sub-payloads in any emitted spatial OutputFrame
  equals \<open>return_count\<close>; section 4.4: one sub-output per active return. \<open>payload\<close> is
  what the builder makes for a return index.
\<close>

definition point_cloud_frame :: "int \<Rightarrow> (nat \<Rightarrow> 'm) \<Rightarrow> int \<Rightarrow> 'm OutputFrame" where
  "point_cloud_frame return_count payload valid_columns =
     PointCloudFrame \<lparr>pc_msgs = map payload [0..<nat return_count],
                      pc_num_valid_columns = valid_columns\<rparr>"

definition laser_scan_frame :: "int \<Rightarrow> (nat \<Rightarrow> 'm) \<Rightarrow> int \<Rightarrow> 'm OutputFrame" where
  "laser_scan_frame return_count payload valid_columns =
     LaserScanFrame \<lparr>scan_msgs = map payload [0..<nat return_count],
                     scan_num_valid_columns = valid_columns\<rparr>"

text \<open>
  Modelled from the spec: the IMU packet handler and its timestamp correction are code
  of imu_packet_handler.h, which is not among the sources. Section 4.6:
  \<open>(raw_timestamp, mode, utc_tai_offset_ns) \<rightarrow> corrected_timestamp\<close>; recognized modes:
  sensor-time passthrough, host-arrival-time substitution, TAI-to-UTC corrected sensor
  time (subtracts the offset); an unrecognized mode falls back to passthrough. Section
  4.5: the IMU transform decodes the packet's hardware timestamp and applies the
  corrector. The spec does not give the mode strings: \<open>mode_of\<close> reads the configured
  string, \<open>decode_timestamp\<close> the packet, and \<open>host_time\<close> is the arrival time.
\<close>

datatype TimestampMode = Sensor_time | Host_arrival_time | TAI_corrected

definition correct_timestamp :: "int \<Rightarrow> int \<Rightarrow> TimestampMode option \<Rightarrow> int \<Rightarrow> int" where
  "correct_timestamp raw_timestamp host_time mode utc_tai_offset_ns =
     (case mode of
        Some Sensor_time \<Rightarrow> raw_timestamp
      | Some Host_arrival_time \<Rightarrow> host_time
      | Some TAI_corrected \<Rightarrow> raw_timestamp - utc_tai_offset_ns
      | None \<Rightarrow> raw_timestamp)"

definition imu_sample_timestamp ::
  "(string \<Rightarrow> TimestampMode option) \<Rightarrow> (8 word list \<Rightarrow> int) \<Rightarrow> int \<Rightarrow>
   ImuPacketHandler \<Rightarrow> 8 word list \<Rightarrow> int" where
  "imu_sample_timestamp mode_of decode_timestamp host_time handler raw_imu_packet =
     correct_timestamp (decode_timestamp raw_imu_packet) host_time
       (mode_of (imu_timestamp_mode handler)) (imu_ptp_utc_tai_offset handler)"

subsection \<open>Example configurations\<close>

text \<open>
  A driver before its first configuration, on a 64-beam sensor with two returns, and one
  with a single return; helpers and parameters to run \<open>create_publishers\<close> on them.
\<close>

definition example_driver :: "int \<Rightarrow> nat OusterDriver" where
  "example_driver n =
     \<lparr>info = \<lparr>get_n_returns = n, get_beams_count = 64, udp_profile_lidar = PROFILE_OTHER 0\<rparr>,
      tf_bcast = \<lparr>imu_frame_id = ''os_imu'', point_cloud_frame_id = ''os_sensor'',
                  lidar_frame_id = ''os_lidar'', apply_lidar_to_sensor_transform = True\<rparr>,
      imu_pub = Invalid_Publisher, lidar_pubs = [], scan_pubs = [], image_pubs = Map.empty,
      imu_packet_handler = None, lidar_packet_handler = None,
      published = [], warnings = []\<rparr>"

definition example_externals :: externals where
  "example_externals =
     \<lparr>topic_for_return = (\<lambda>base idx. if idx = 0 then base else base @ ''2''),
      point_type_requires_intensity = (\<lambda>pt. False)\<rparr>"

definition default_params :: params where
  "default_params =
     \<lparr>proc_mask = None, timestamp_mode = None, ptp_utc_tai_offset = None,
      min_valid_columns_in_scan = None, point_type = None, scan_ring = None\<rparr>"

definition example_handler :: "string \<Rightarrow> int \<Rightarrow> ImuPacketHandler" where
  "example_handler ts_mode ns =
     \<lparr>imu_info = \<lparr>get_n_returns = 2, get_beams_count = 64, udp_profile_lidar = PROFILE_OTHER 0\<rparr>,
      imu_frame = ''os_imu'', imu_timestamp_mode = ts_mode, imu_ptp_utc_tai_offset = ns\<rparr>"

section \<open>Properties\<close>

subsection \<open>The effects of the callbacks and of the blocks of create_publishers\<close>

lemma publish_fields [simp]:
  "published (publish pub msg d) = published d @ [(pub, msg)]"
  "warnings (publish pub msg d) = warnings d"
  "lidar_pubs (publish pub msg d) = lidar_pubs d"
  "scan_pubs (publish pub msg d) = scan_pubs d"
  "image_pubs (publish pub msg d) = image_pubs d"
  by (simp_all add: publish_def)

lemma warn_fields [simp]:
  "published (warn w d) = published d"
  "warnings (warn w d) = warnings d @ [w]"
  "info (warn w d) = info d"
  "tf_bcast (warn w d) = tf_bcast d"
  "lidar_pubs (warn w d) = lidar_pubs d"
  "scan_pubs (warn w d) = scan_pubs d"
  "image_pubs (warn w d) = image_pubs d"
  "imu_pub (warn w d) = imu_pub d"
  "imu_packet_handler (warn w d) = imu_packet_handler d"
  "lidar_packet_handler (warn w d) = lidar_packet_handler d"
  by (simp_all add: warn_def)

lemma publish_returns_ok:
  "length msgs \<le> length pubs \<Longrightarrow> i \<le> length msgs \<Longrightarrow>
   \<exists>d'. publish_returns pubs i msgs d = Inr d' \<and>
        published d' = published d @ zip (drop i pubs) (drop i msgs) \<and>
        warnings d' = warnings d"
proof (induction pubs i msgs d rule: publish_returns.induct)
  case (1 pubs i msgs d)
  show ?case
  proof (cases "i < length msgs")
    case True
    then have ip: "i < length pubs" using "1.prems" by simp
    from "1.IH" [OF True ip] "1.prems" True
    obtain d' where d': "publish_returns pubs (Suc i) msgs (publish (pubs ! i) (msgs ! i) d) = Inr d'"
      "published d' = (published d @ [(pubs ! i, msgs ! i)]) @ zip (drop (Suc i) pubs) (drop (Suc i) msgs)"
      "warnings d' = warnings d"
      by auto
    have "zip (drop i pubs) (drop i msgs) = (pubs ! i, msgs ! i) # zip (drop (Suc i) pubs) (drop (Suc i) msgs)"
      using True ip by (simp flip: Cons_nth_drop_Suc)
    with d' True ip show ?thesis
      by (subst publish_returns.simps) simp
  next
    case False
    with "1.prems" show ?thesis by (subst publish_returns.simps) simp
  qed
qed

lemma publish_returns_fault:
  "length pubs < length msgs \<Longrightarrow> i \<le> length pubs \<Longrightarrow>
   publish_returns pubs i msgs d = Inl OutOfBounds"
proof (induction pubs i msgs d rule: publish_returns.induct)
  case (1 pubs i msgs d)
  show ?case
  proof (cases "i < length pubs")
    case True
    with "1.IH" "1.prems" show ?thesis by (subst publish_returns.simps) simp
  next
    case False
    with "1.prems" show ?thesis by (subst publish_returns.simps) simp
  qed
qed

lemma image_pubs_at_sink:
  "image_pubs_at field d = (pub, d') \<Longrightarrow>
     pub = sink_of (image_pubs d) field \<and> published d' = published d \<and> warnings d' = warnings d \<and>
     (\<forall>k. sink_of (image_pubs d') k = sink_of (image_pubs d) k)"
  by (auto simp: image_pubs_at_def sink_of_def split: option.splits if_splits)

lemma publish_images_published:
  "published (publish_images entries d) =
     published d @ map (\<lambda>(field, msg). (sink_of (image_pubs d) field, msg)) entries \<and>
   warnings (publish_images entries d) = warnings d"
proof (induction entries arbitrary: d)
  case Nil
  show ?case by simp
next
  case (Cons e entries)
  obtain field msg where e: "e = (field, msg)" by (cases e)
  obtain pub d' where at: "image_pubs_at field d = (pub, d')" by (cases "image_pubs_at field d")
  from image_pubs_at_sink [OF at] have
    s: "pub = sink_of (image_pubs d) field" "published d' = published d" "warnings d' = warnings d"
      "\<And>k. sink_of (image_pubs d') k = sink_of (image_pubs d) k"
    by auto
  show ?case
    using Cons.IH [of "publish pub msg d'"] s by (simp add: e at)
qed

lemma advertise_returns_eq:
  "0 \<le> i \<Longrightarrow> i \<le> n \<Longrightarrow> length pubs = nat n \<Longrightarrow>
   advertise_returns tfr base n i pubs =
     take (nat i) pubs @ map (\<lambda>j. Advertised (tfr base (int j)) 10) [nat i..<nat n]"
proof (induction tfr base n i pubs rule: advertise_returns.induct)
  case (1 tfr base n i pubs)
  show ?case
  proof (cases "i < n")
    case True
    let ?p = "pubs[nat i := advertise (tfr base i) 10]"
    have len: "nat i < length pubs" using True "1.prems" by simp
    have "advertise_returns tfr base n (i + 1) ?p =
            take (nat (i + 1)) ?p @ map (\<lambda>j. Advertised (tfr base (int j)) 10) [nat (i + 1)..<nat n]"
      using "1.IH" [OF True] True "1.prems" by simp
    moreover have "nat (i + 1) = Suc (nat i)" using "1.prems" by simp
    moreover have "take (Suc (nat i)) ?p = take (nat i) pubs @ [Advertised (tfr base i) 10]"
      using len by (simp add: take_Suc_conv_app_nth advertise_def)
    moreover have "[nat i..<nat n] = nat i # [Suc (nat i)..<nat n]"
      using True "1.prems" by (simp add: upt_conv_Cons)
    ultimately show ?thesis
      using True "1.prems" by (subst advertise_returns.simps) simp
  next
    case False
    then have "i = n" using "1.prems" by simp
    then show ?thesis using "1.prems" by (subst advertise_returns.simps) simp
  qed
qed

lemma resize_advertise_returns:
  "resize n pubs = Inr pubs' \<Longrightarrow>
   advertise_returns tfr base n 0 pubs' = map (\<lambda>j. Advertised (tfr base (int j)) 10) [0..<nat n]"
  using advertise_returns_eq [of 0 n pubs' tfr base]
  by (auto simp: resize_def split: if_splits)

lemma resize_Inr: "resize n pubs = Inr pubs' \<Longrightarrow> 0 \<le> n"
  by (auto simp: resize_def split: if_splits)

lemma resize_nonneg: "0 \<le> n \<Longrightarrow> \<exists>pubs'. resize n pubs = Inr pubs'"
  by (simp add: resize_def)

lemma and_then_Inr:
  "and_then r f = Inr y \<longleftrightarrow> (\<exists>x. r = Inr x \<and> f x = Inr y)"
  by (cases r) (simp_all add: and_then_def)

lemma create_imu_handler_Inr:
  "create_imu_handler ps d = Inr d1 \<longleftrightarrow>
     (if check_token (tokens ps) ''IMU''
      then \<exists>ns. offset_to_ns (ptp_utc_tai_offset_local ps) = Inr ns \<and>
             d1 = d\<lparr>imu_pub := Advertised ''imu'' 100,
                    imu_packet_handler := Some
                      \<lparr>imu_info = info d, imu_frame = imu_frame_id (tf_bcast d),
                       imu_timestamp_mode = timestamp_mode_local ps,
                       imu_ptp_utc_tai_offset = ns\<rparr>\<rparr>
      else d1 = d)"
  by (auto simp: create_imu_handler_def and_then_Inr advertise_def)

lemma create_point_cloud_processor_Inr:
  "create_point_cloud_processor ext ps n (d, procs) = Inr st \<longleftrightarrow>
     (if check_token (tokens ps) ''PCL''
      then 0 \<le> n \<and>
           st = ((if point_type_requires_intensity ext (param (point_type ps) ''original'') \<and>
                     udp_profile_lidar (info d) = PROFILE_RNG15_RFL8_NIR8
                  then warn (Incompatible_point_type (param (point_type ps) ''original''))
                         (d\<lparr>lidar_pubs := returns_pubs ext ''points'' n\<rparr>)
                  else d\<lparr>lidar_pubs := returns_pubs ext ''points'' n\<rparr>),
                 procs @ [PointCloudProcessor (param (point_type ps) ''original'') (info d)
                            (point_cloud_frame_id (tf_bcast d))
                            (apply_lidar_to_sensor_transform (tf_bcast d))
                            (min_valid_columns_in_scan_local ps)])
      else st = (d, procs))"
proof (cases "check_token (tokens ps) ''PCL''")
  case False
  then show ?thesis by (auto simp: create_point_cloud_processor_def)
next
  case True
  show ?thesis
  proof (cases "0 \<le> n")
    case False
    then show ?thesis using True
      by (auto simp: create_point_cloud_processor_def and_then_Inr dest: resize_Inr)
  next
    case n: True
    then obtain pubs' where r: "resize n (lidar_pubs d) = Inr pubs'"
      using resize_nonneg by blast
    show ?thesis using True n r resize_advertise_returns [OF r]
      by (auto simp: create_point_cloud_processor_def and_then_Inr Let_def returns_pubs_def)
  qed
qed


lemma create_laser_scan_processor_Inr:
  "create_laser_scan_processor ext ps n (d, procs) = Inr st \<longleftrightarrow>
     (if check_token (tokens ps) ''SCAN''
      then 0 \<le> n \<and> static_cast_int (get_beams_count (info d)) \<noteq> - (2 ^ 31) \<and>
           st = ((if clamp_scan_ring (param (scan_ring ps) 0)
                       (static_cast_int (get_beams_count (info d))) \<noteq> param (scan_ring ps) 0
                  then warn (Scan_ring_clamped (static_cast_int (get_beams_count (info d)))
                               (clamp_scan_ring (param (scan_ring ps) 0)
                                  (static_cast_int (get_beams_count (info d)))))
                         (d\<lparr>scan_pubs := returns_pubs ext ''scan'' n\<rparr>)
                  else d\<lparr>scan_pubs := returns_pubs ext ''scan'' n\<rparr>),
                 procs @ [LaserScanProcessor (info d) (lidar_frame_id (tf_bcast d))
                            (clamp_scan_ring (param (scan_ring ps) 0)
                               (static_cast_int (get_beams_count (info d))))
                            (min_valid_columns_in_scan_local ps)])
      else st = (d, procs))"
proof (cases "check_token (tokens ps) ''SCAN''")
  case False
  then show ?thesis by (auto simp: create_laser_scan_processor_def)
next
  case True
  show ?thesis
  proof (cases "0 \<le> n")
    case False
    then show ?thesis using True
      by (auto simp: create_laser_scan_processor_def and_then_Inr dest: resize_Inr)
  next
    case n: True
    then obtain pubs' where r: "resize n (scan_pubs d) = Inr pubs'"
      using resize_nonneg by blast
    show ?thesis using True n r resize_advertise_returns [OF r]
      by (auto simp: create_laser_scan_processor_def and_then_Inr Let_def returns_pubs_def)
  qed
qed

lemma create_image_processor_Inr:
  "create_image_processor ps n (d, procs) = Inr st \<longleftrightarrow>
     st = (if check_token (tokens ps) ''IMG''
           then (d\<lparr>image_pubs := advertise_images (which_map n) (image_pubs d)\<rparr>,
                 procs @ [ImageProcessor (info d) (point_cloud_frame_id (tf_bcast d))
                            (min_valid_columns_in_scan_local ps)])
           else (d, procs))"
  by (auto simp: create_image_processor_def Let_def)

lemma create_lidar_handler_Inr:
  "create_lidar_handler ps (d, procs) = Inr d' \<longleftrightarrow>
     (if check_token (tokens ps) ''PCL'' \<or> check_token (tokens ps) ''SCAN'' \<or>
         check_token (tokens ps) ''IMG''
      then \<exists>ns. offset_to_ns (ptp_utc_tai_offset_local ps) = Inr ns \<and>
             d' = d\<lparr>lidar_packet_handler := Some
                      \<lparr>lidar_info = info d, lidar_processors = procs,
                       lidar_timestamp_mode = timestamp_mode_local ps,
                       lidar_ptp_utc_tai_offset = ns\<rparr>\<rparr>
      else d' = d)"
  by (auto simp: create_lidar_handler_def and_then_Inr)

lemma create_publishers_steps:
  assumes "create_publishers ext ps d = Inr d'"
  obtains d1 d2 p2 d3 p3 d4 p4 where
    "create_imu_handler ps d = Inr d1"
    "create_point_cloud_processor ext ps (get_n_returns (info d1)) (d1, []) = Inr (d2, p2)"
    "create_laser_scan_processor ext ps (get_n_returns (info d1)) (d2, p2) = Inr (d3, p3)"
    "create_image_processor ps (get_n_returns (info d1)) (d3, p3) = Inr (d4, p4)"
    "create_lidar_handler ps (d4, p4) = Inr d'"
  using assms unfolding create_publishers_def and_then_Inr Let_def
  by (metis surj_pair)

lemma create_imu_handler_fields:
  assumes "create_imu_handler ps d = Inr d1"
  shows "info d1 = info d" "tf_bcast d1 = tf_bcast d" "published d1 = published d"
    "warnings d1 = warnings d" "lidar_pubs d1 = lidar_pubs d" "scan_pubs d1 = scan_pubs d"
    "image_pubs d1 = image_pubs d" "lidar_packet_handler d1 = lidar_packet_handler d"
    "imu_pub d1 = (if check_token (tokens ps) ''IMU'' then Advertised ''imu'' 100 else imu_pub d)"
    "imu_packet_handler d1 =
       (if check_token (tokens ps) ''IMU''
        then map_option (\<lambda>ns. \<lparr>imu_info = info d, imu_frame = imu_frame_id (tf_bcast d),
                 imu_timestamp_mode = timestamp_mode_local ps, imu_ptp_utc_tai_offset = ns\<rparr>)
               (case offset_to_ns (ptp_utc_tai_offset_local ps) of Inr ns \<Rightarrow> Some ns | Inl e \<Rightarrow> None)
        else imu_packet_handler d)"
    "check_token (tokens ps) ''IMU'' \<Longrightarrow> \<exists>ns. offset_to_ns (ptp_utc_tai_offset_local ps) = Inr ns"
  using assms by (auto simp: create_imu_handler_Inr split: if_splits)

lemma create_point_cloud_processor_fields:
  assumes "create_point_cloud_processor ext ps n (d, procs) = Inr (d2, p2)"
  shows "info d2 = info d" "tf_bcast d2 = tf_bcast d" "published d2 = published d"
    "imu_pub d2 = imu_pub d" "scan_pubs d2 = scan_pubs d" "image_pubs d2 = image_pubs d"
    "imu_packet_handler d2 = imu_packet_handler d" "lidar_packet_handler d2 = lidar_packet_handler d"
    "lidar_pubs d2 = (if check_token (tokens ps) ''PCL'' then returns_pubs ext ''points'' n else lidar_pubs d)"
    "warnings d2 = warnings d @
       (if check_token (tokens ps) ''PCL'' \<and>
           point_type_requires_intensity ext (param (point_type ps) ''original'') \<and>
           udp_profile_lidar (info d) = PROFILE_RNG15_RFL8_NIR8
        then [Incompatible_point_type (param (point_type ps) ''original'')] else [])"
    "p2 = procs @ (if check_token (tokens ps) ''PCL''
       then [PointCloudProcessor (param (point_type ps) ''original'') (info d)
              (point_cloud_frame_id (tf_bcast d)) (apply_lidar_to_sensor_transform (tf_bcast d))
              (min_valid_columns_in_scan_local ps)]
       else [])"
    "check_token (tokens ps) ''PCL'' \<Longrightarrow> 0 \<le> n"
  using assms by (auto simp: create_point_cloud_processor_Inr split: if_splits)

lemma create_laser_scan_processor_fields:
  assumes "create_laser_scan_processor ext ps n (d, procs) = Inr (d3, p3)"
  shows "info d3 = info d" "tf_bcast d3 = tf_bcast d" "published d3 = published d"
    "imu_pub d3 = imu_pub d" "lidar_pubs d3 = lidar_pubs d" "image_pubs d3 = image_pubs d"
    "imu_packet_handler d3 = imu_packet_handler d" "lidar_packet_handler d3 = lidar_packet_handler d"
    "scan_pubs d3 = (if check_token (tokens ps) ''SCAN'' then returns_pubs ext ''scan'' n else scan_pubs d)"
    "warnings d3 = warnings d @
       (if check_token (tokens ps) ''SCAN'' \<and>
           clamp_scan_ring (param (scan_ring ps) 0) (static_cast_int (get_beams_count (info d)))
             \<noteq> param (scan_ring ps) 0
        then [Scan_ring_clamped (static_cast_int (get_beams_count (info d)))
                (clamp_scan_ring (param (scan_ring ps) 0) (static_cast_int (get_beams_count (info d))))]
        else [])"
    "p3 = procs @ (if check_token (tokens ps) ''SCAN''
       then [LaserScanProcessor (info d) (lidar_frame_id (tf_bcast d))
              (clamp_scan_ring (param (scan_ring ps) 0) (static_cast_int (get_beams_count (info d))))
              (min_valid_columns_in_scan_local ps)]
       else [])"
    "check_token (tokens ps) ''SCAN'' \<Longrightarrow>
       0 \<le> n \<and> static_cast_int (get_beams_count (info d)) \<noteq> - (2 ^ 31)"
  using assms by (auto simp: create_laser_scan_processor_Inr split: if_splits)

lemma create_image_processor_fields:
  assumes "create_image_processor ps n (d, procs) = Inr (d4, p4)"
  shows "info d4 = info d" "tf_bcast d4 = tf_bcast d" "published d4 = published d"
    "warnings d4 = warnings d"
    "imu_pub d4 = imu_pub d" "lidar_pubs d4 = lidar_pubs d" "scan_pubs d4 = scan_pubs d"
    "imu_packet_handler d4 = imu_packet_handler d" "lidar_packet_handler d4 = lidar_packet_handler d"
    "image_pubs d4 = (if check_token (tokens ps) ''IMG''
       then advertise_images (which_map n) (image_pubs d) else image_pubs d)"
    "p4 = procs @ (if check_token (tokens ps) ''IMG''
       then [ImageProcessor (info d) (point_cloud_frame_id (tf_bcast d))
              (min_valid_columns_in_scan_local ps)]
       else [])"
  using assms by (auto simp: create_image_processor_Inr split: if_splits)

lemma create_lidar_handler_fields:
  assumes "create_lidar_handler ps (d, procs) = Inr d'"
  shows "info d' = info d" "tf_bcast d' = tf_bcast d" "published d' = published d"
    "warnings d' = warnings d"
    "imu_pub d' = imu_pub d" "lidar_pubs d' = lidar_pubs d" "scan_pubs d' = scan_pubs d"
    "image_pubs d' = image_pubs d" "imu_packet_handler d' = imu_packet_handler d"
    "lidar_packet_handler d' =
       (if check_token (tokens ps) ''PCL'' \<or> check_token (tokens ps) ''SCAN'' \<or>
           check_token (tokens ps) ''IMG''
        then map_option (\<lambda>ns. \<lparr>lidar_info = info d, lidar_processors = procs,
                 lidar_timestamp_mode = timestamp_mode_local ps, lidar_ptp_utc_tai_offset = ns\<rparr>)
               (case offset_to_ns (ptp_utc_tai_offset_local ps) of Inr ns \<Rightarrow> Some ns | Inl e \<Rightarrow> None)
        else lidar_packet_handler d)"
    "check_token (tokens ps) ''PCL'' \<or> check_token (tokens ps) ''SCAN'' \<or>
       check_token (tokens ps) ''IMG'' \<Longrightarrow>
     \<exists>ns. offset_to_ns (ptp_utc_tai_offset_local ps) = Inr ns"
  using assms by (auto simp: create_lidar_handler_Inr split: if_splits)

lemma create_publishers_Inr:
  assumes "create_publishers ext ps d = Inr d'"
  shows "info d' = info d" and "tf_bcast d' = tf_bcast d" and "published d' = published d"
    and "lidar_pubs d' = (if check_token (tokens ps) ''PCL''
           then returns_pubs ext ''points'' (get_n_returns (info d)) else lidar_pubs d)"
    and "scan_pubs d' = (if check_token (tokens ps) ''SCAN''
           then returns_pubs ext ''scan'' (get_n_returns (info d)) else scan_pubs d)"
    and "image_pubs d' = (if check_token (tokens ps) ''IMG''
           then advertise_images (which_map (get_n_returns (info d))) (image_pubs d)
           else image_pubs d)"
    and "imu_pub d' = (if check_token (tokens ps) ''IMU'' then Advertised ''imu'' 100 else imu_pub d)"
    and "warnings d' = warnings d @
           (if check_token (tokens ps) ''PCL'' \<and>
               point_type_requires_intensity ext (param (point_type ps) ''original'') \<and>
               udp_profile_lidar (info d) = PROFILE_RNG15_RFL8_NIR8
            then [Incompatible_point_type (param (point_type ps) ''original'')] else []) @
           (if check_token (tokens ps) ''SCAN'' \<and> scan_ring_local ps d \<noteq> param (scan_ring ps) 0
            then [Scan_ring_clamped (static_cast_int (get_beams_count (info d)))
                    (scan_ring_local ps d)]
            else [])"
    and "check_token (tokens ps) ''PCL'' \<or> check_token (tokens ps) ''SCAN'' \<Longrightarrow>
           0 \<le> get_n_returns (info d)"
    and "check_token (tokens ps) ''SCAN'' \<Longrightarrow>
           static_cast_int (get_beams_count (info d)) \<noteq> - (2 ^ 31)"
proof -
  from assms obtain d1 d2 p2 d3 p3 d4 p4 where
    s1: "create_imu_handler ps d = Inr d1" and
    s2: "create_point_cloud_processor ext ps (get_n_returns (info d1)) (d1, []) = Inr (d2, p2)" and
    s3: "create_laser_scan_processor ext ps (get_n_returns (info d1)) (d2, p2) = Inr (d3, p3)" and
    s4: "create_image_processor ps (get_n_returns (info d1)) (d3, p3) = Inr (d4, p4)" and
    s5: "create_lidar_handler ps (d4, p4) = Inr d'"
    by (rule create_publishers_steps)
  note f1 = create_imu_handler_fields [OF s1]
  note f2 = create_point_cloud_processor_fields [OF s2]
  note f3 = create_laser_scan_processor_fields [OF s3]
  note f4 = create_image_processor_fields [OF s4]
  note f5 = create_lidar_handler_fields [OF s5]
  show "info d' = info d" by (simp add: f1(1) f2(1) f3(1) f4(1) f5(1))
  show "tf_bcast d' = tf_bcast d" by (simp add: f1(2) f2(2) f3(2) f4(2) f5(2))
  show "published d' = published d" by (simp add: f1(3) f2(3) f3(3) f4(3) f5(3))
  show "lidar_pubs d' = (if check_token (tokens ps) ''PCL''
           then returns_pubs ext ''points'' (get_n_returns (info d)) else lidar_pubs d)"
    by (simp add: f5(6) f4(6) f3(5) f2(9) f1(5) f1(1))
  show "scan_pubs d' = (if check_token (tokens ps) ''SCAN''
           then returns_pubs ext ''scan'' (get_n_returns (info d)) else scan_pubs d)"
    by (simp add: f5(7) f4(7) f3(9) f2(5) f1(6) f1(1))
  show "image_pubs d' = (if check_token (tokens ps) ''IMG''
           then advertise_images (which_map (get_n_returns (info d))) (image_pubs d)
           else image_pubs d)"
    by (simp add: f5(8) f4(10) f3(6) f2(6) f1(7) f1(1))
  show "imu_pub d' = (if check_token (tokens ps) ''IMU'' then Advertised ''imu'' 100 else imu_pub d)"
    by (simp add: f5(5) f4(5) f3(4) f2(4) f1(9))
  show "warnings d' = warnings d @
           (if check_token (tokens ps) ''PCL'' \<and>
               point_type_requires_intensity ext (param (point_type ps) ''original'') \<and>
               udp_profile_lidar (info d) = PROFILE_RNG15_RFL8_NIR8
            then [Incompatible_point_type (param (point_type ps) ''original'')] else []) @
           (if check_token (tokens ps) ''SCAN'' \<and> scan_ring_local ps d \<noteq> param (scan_ring ps) 0
            then [Scan_ring_clamped (static_cast_int (get_beams_count (info d)))
                    (scan_ring_local ps d)]
            else [])"
    by (simp add: f5(4) f4(4) f3(10) f3(1) f2(10) f2(1) f1(4) f1(1) scan_ring_local_def)
  show "0 \<le> get_n_returns (info d)"
    if "check_token (tokens ps) ''PCL'' \<or> check_token (tokens ps) ''SCAN''"
    using that f2(12) f3(12) f1(1) by auto
  show "static_cast_int (get_beams_count (info d)) \<noteq> - (2 ^ 31)"
    if "check_token (tokens ps) ''SCAN''"
    using that f3(12) f2(1) f1(1) by simp
qed

lemma create_publishers_imu_handler:
  assumes "create_publishers ext ps d = Inr d'"
  shows "check_token (tokens ps) ''IMU'' \<Longrightarrow>
           \<exists>ns. offset_to_ns (ptp_utc_tai_offset_local ps) = Inr ns \<and>
             imu_packet_handler d' = Some
               \<lparr>imu_info = info d, imu_frame = imu_frame_id (tf_bcast d),
                imu_timestamp_mode = timestamp_mode_local ps, imu_ptp_utc_tai_offset = ns\<rparr>"
    and "\<not> check_token (tokens ps) ''IMU'' \<Longrightarrow> imu_packet_handler d' = imu_packet_handler d"
proof -
  from assms obtain d1 d2 p2 d3 p3 d4 p4 where
    s1: "create_imu_handler ps d = Inr d1" and
    s2: "create_point_cloud_processor ext ps (get_n_returns (info d1)) (d1, []) = Inr (d2, p2)" and
    s3: "create_laser_scan_processor ext ps (get_n_returns (info d1)) (d2, p2) = Inr (d3, p3)" and
    s4: "create_image_processor ps (get_n_returns (info d1)) (d3, p3) = Inr (d4, p4)" and
    s5: "create_lidar_handler ps (d4, p4) = Inr d'"
    by (rule create_publishers_steps)
  note f1 = create_imu_handler_fields [OF s1]
  note f2 = create_point_cloud_processor_fields [OF s2]
  note f3 = create_laser_scan_processor_fields [OF s3]
  note f4 = create_image_processor_fields [OF s4]
  note f5 = create_lidar_handler_fields [OF s5]
  have h: "imu_packet_handler d' = imu_packet_handler d1"
    by (simp add: f5(9) f4(8) f3(7) f2(7))
  show "\<exists>ns. offset_to_ns (ptp_utc_tai_offset_local ps) = Inr ns \<and>
             imu_packet_handler d' = Some
               \<lparr>imu_info = info d, imu_frame = imu_frame_id (tf_bcast d),
                imu_timestamp_mode = timestamp_mode_local ps, imu_ptp_utc_tai_offset = ns\<rparr>"
    if "check_token (tokens ps) ''IMU''"
    using that s1 h by (auto simp: create_imu_handler_Inr)
  show "imu_packet_handler d' = imu_packet_handler d" if "\<not> check_token (tokens ps) ''IMU''"
    using that s1 h by (simp add: create_imu_handler_Inr)
qed

lemma create_publishers_lidar_handler:
  assumes "create_publishers ext ps d = Inr d'"
  shows "check_token (tokens ps) ''PCL'' \<or> check_token (tokens ps) ''SCAN'' \<or>
         check_token (tokens ps) ''IMG'' \<Longrightarrow>
           \<exists>ns. offset_to_ns (ptp_utc_tai_offset_local ps) = Inr ns \<and>
             lidar_packet_handler d' = Some
               \<lparr>lidar_info = info d, lidar_processors = built_processors ps d,
                lidar_timestamp_mode = timestamp_mode_local ps, lidar_ptp_utc_tai_offset = ns\<rparr>"
    and "\<not> (check_token (tokens ps) ''PCL'' \<or> check_token (tokens ps) ''SCAN'' \<or>
            check_token (tokens ps) ''IMG'') \<Longrightarrow>
           lidar_packet_handler d' = lidar_packet_handler d"
proof -
  from assms obtain d1 d2 p2 d3 p3 d4 p4 where
    s1: "create_imu_handler ps d = Inr d1" and
    s2: "create_point_cloud_processor ext ps (get_n_returns (info d1)) (d1, []) = Inr (d2, p2)" and
    s3: "create_laser_scan_processor ext ps (get_n_returns (info d1)) (d2, p2) = Inr (d3, p3)" and
    s4: "create_image_processor ps (get_n_returns (info d1)) (d3, p3) = Inr (d4, p4)" and
    s5: "create_lidar_handler ps (d4, p4) = Inr d'"
    by (rule create_publishers_steps)
  note f1 = create_imu_handler_fields [OF s1]
  note f2 = create_point_cloud_processor_fields [OF s2]
  note f3 = create_laser_scan_processor_fields [OF s3]
  note f4 = create_image_processor_fields [OF s4]
  have i: "info d4 = info d" by (simp add: f1(1) f2(1) f3(1) f4(1))
  have p: "p4 = built_processors ps d"
    by (simp add: f4(11) f3(11) f2(11) f3(1) f3(2) f2(1) f2(2) f1(1) f1(2)
          built_processors_def scan_ring_local_def)
  have h: "lidar_packet_handler d4 = lidar_packet_handler d"
    by (simp add: f4(9) f3(8) f2(8) f1(8))
  show "\<exists>ns. offset_to_ns (ptp_utc_tai_offset_local ps) = Inr ns \<and>
             lidar_packet_handler d' = Some
               \<lparr>lidar_info = info d, lidar_processors = built_processors ps d,
                lidar_timestamp_mode = timestamp_mode_local ps, lidar_ptp_utc_tai_offset = ns\<rparr>"
    if "check_token (tokens ps) ''PCL'' \<or> check_token (tokens ps) ''SCAN'' \<or>
        check_token (tokens ps) ''IMG''"
    using that s5 i p by (auto simp: create_lidar_handler_Inr)
  show "lidar_packet_handler d' = lidar_packet_handler d"
    if "\<not> (check_token (tokens ps) ''PCL'' \<or> check_token (tokens ps) ''SCAN'' \<or>
           check_token (tokens ps) ''IMG'')"
    using that s5 h by (simp add: create_lidar_handler_Inr)
qed

lemma create_publishers_returns:
  assumes off: "offset_to_ns (ptp_utc_tai_offset_local ps) = Inr ns"
    and n: "0 \<le> get_n_returns (info d)"
    and bc: "static_cast_int (get_beams_count (info d)) \<noteq> - (2 ^ 31)"
  shows "\<exists>d'. create_publishers ext ps d = Inr d'"
proof -
  have "\<exists>d1. create_imu_handler ps d = Inr d1"
    using off by (cases "check_token (tokens ps) ''IMU''") (simp_all add: create_imu_handler_Inr)
  then obtain d1 where s1: "create_imu_handler ps d = Inr d1" ..
  note f1 = create_imu_handler_fields [OF s1]
  let ?n = "get_n_returns (info d1)"
  have n1: "0 \<le> ?n" using n f1(1) by simp
  have "\<exists>st. create_point_cloud_processor ext ps ?n (d1, []) = Inr st"
    using n1 by (cases "check_token (tokens ps) ''PCL''")
      (simp_all add: create_point_cloud_processor_Inr)
  then obtain d2 p2 where s2: "create_point_cloud_processor ext ps ?n (d1, []) = Inr (d2, p2)"
    by (metis surj_pair)
  note f2 = create_point_cloud_processor_fields [OF s2]
  have bc2: "static_cast_int (get_beams_count (info d2)) \<noteq> - (2 ^ 31)"
    using bc f1(1) f2(1) by simp
  have "\<exists>st. create_laser_scan_processor ext ps ?n (d2, p2) = Inr st"
    using n1 bc2 by (cases "check_token (tokens ps) ''SCAN''")
      (simp_all add: create_laser_scan_processor_Inr)
  then obtain d3 p3 where s3: "create_laser_scan_processor ext ps ?n (d2, p2) = Inr (d3, p3)"
    by (metis surj_pair)
  have "\<exists>st. create_image_processor ps ?n (d3, p3) = Inr st"
    by (simp add: create_image_processor_Inr)
  then obtain d4 p4 where s4: "create_image_processor ps ?n (d3, p3) = Inr (d4, p4)"
    by (metis surj_pair)
  have "\<exists>d'. create_lidar_handler ps (d4, p4) = Inr d'"
    using off
    by (cases "check_token (tokens ps) ''PCL'' \<or> check_token (tokens ps) ''SCAN'' \<or>
          check_token (tokens ps) ''IMG''")
      (simp_all add: create_lidar_handler_Inr)
  then obtain d' where s5: "create_lidar_handler ps (d4, p4) = Inr d'" ..
  have "create_publishers ext ps d = Inr d'"
    unfolding create_publishers_def and_then_Inr Let_def
    using s1 s2 s3 s4 s5 by blast
  then show ?thesis ..
qed

lemma on_imu_packet_msg_Some:
  "imu_packet_handler d = Some h \<Longrightarrow>
   on_imu_packet_msg run raw d = d\<lparr>published := published d @ [(imu_pub d, run h raw)]\<rparr>"
  by (simp add: on_imu_packet_msg_def publish_def)

lemma imu_packets_published:
  "imu_packet_handler d = Some h \<Longrightarrow>
   published (foldl (\<lambda>s raw. on_imu_packet_msg run raw s) d raws) =
     published d @ map (\<lambda>raw. (imu_pub d, run h raw)) raws"
proof (induction raws arbitrary: d)
  case Nil
  show ?case by simp
next
  case (Cons raw raws)
  let ?d = "on_imu_packet_msg run raw d"
  have e: "?d = d\<lparr>published := published d @ [(imu_pub d, run h raw)]\<rparr>"
    using Cons.prems by (rule on_imu_packet_msg_Some)
  have "imu_packet_handler ?d = Some h" "imu_pub ?d = imu_pub d"
       "published ?d = published d @ [(imu_pub d, run h raw)]"
    using Cons.prems by (simp_all add: e)
  with Cons.IH [of ?d] show ?case by simp
qed

lemma advertise_images_lookup:
  "distinct (map fst entries) \<Longrightarrow>
   advertise_images entries pubs field =
     (case map_of entries field of
        Some topic \<Rightarrow> Some (Advertised topic 10)
      | None \<Rightarrow> pubs field)"
proof (induction entries arbitrary: pubs)
  case Nil
  show ?case by simp
next
  case (Cons e entries)
  obtain f t where e: "e = (f, t)" by (cases e)
  have d: "distinct (map fst entries)" and n: "map_of entries f = None"
    using Cons.prems by (simp_all add: e map_of_eq_None_iff)
  have "advertise_images (e # entries) pubs field =
          advertise_images entries (pubs(f \<mapsto> advertise t 10)) field"
    by (simp add: e)
  also have "\<dots> = (case map_of entries field of
                      Some topic \<Rightarrow> Some (Advertised topic 10)
                    | None \<Rightarrow> (pubs(f \<mapsto> advertise t 10)) field)"
    by (rule Cons.IH [OF d])
  also have "\<dots> = (case map_of (e # entries) field of
                      Some topic \<Rightarrow> Some (Advertised topic 10)
                    | None \<Rightarrow> pubs field)"
    using n by (cases "field = f") (simp_all add: e advertise_def split: option.splits)
  finally show ?case .
qed

lemma advertise_images_order:
  assumes "distinct (map fst xs)" "distinct (map fst ys)" "set xs = set ys"
  shows "advertise_images xs pubs = advertise_images ys pubs"
proof
  fix field
  have "map_of xs = map_of ys"
    using assms by (simp add: map_of_inject_set)
  then show "advertise_images xs pubs field = advertise_images ys pubs field"
    using assms by (simp add: advertise_images_lookup)
qed

lemma which_map_keys:
  "map fst (which_map n) =
     (if n = 1 then [RANGE, SIGNAL, REFLECTIVITY, NEAR_IR]
      else [RANGE, SIGNAL, REFLECTIVITY, NEAR_IR, RANGE2, SIGNAL2, REFLECTIVITY2])"
  by (simp add: which_map_def channel_field_topic_map_1_def channel_field_topic_map_2_def)

lemma which_map_distinct: "distinct (map fst (which_map n))"
  by (simp add: which_map_keys)

lemma static_cast_int_small: "n < 2 ^ 31 \<Longrightarrow> static_cast_int n = int n"
  unfolding static_cast_int_def
  by (simp add: signed_of_nat signed_take_bit_int_eq_self)

lemma output_callback_drops:
  "valid_column_count frame < min_valid_columns \<Longrightarrow>
   \<exists>d'. output_callback min_valid_columns frame d = Inr d' \<and> published d' = published d"
  by (cases frame)
     (simp_all add: point_cloud_callback_def laser_scan_callback_def image_callback_def)

lemma output_callback_forwards:
  assumes "min_valid_columns \<le> valid_column_count frame" and "frame_fits frame d"
  shows "\<exists>d'. output_callback min_valid_columns frame d = Inr d' \<and>
              published d' = published d @ deliveries frame d"
proof (cases frame)
  case (PointCloudFrame data)
  then have "length (pc_msgs data) \<le> length (lidar_pubs d)" using assms(2) by simp
  from publish_returns_ok [OF this, of 0 d] show ?thesis
    using PointCloudFrame assms(1) by (auto simp: point_cloud_callback_def)
next
  case (LaserScanFrame data)
  then have "length (scan_msgs data) \<le> length (scan_pubs d)" using assms(2) by simp
  from publish_returns_ok [OF this, of 0 d] show ?thesis
    using LaserScanFrame assms(1) by (auto simp: laser_scan_callback_def)
next
  case (ImageFrame data)
  then show ?thesis
    using assms(1) publish_images_published [of "image_msgs data" d]
    by (simp add: image_callback_def)
qed

lemma deliveries_messages:
  "frame_fits frame d \<Longrightarrow> map snd (deliveries frame d) = sub_payloads frame"
  by (cases frame) (simp_all add: map_snd_zip_take case_prod_beta comp_def)

lemma built_processors_thresholds:
  "map captured_min_valid_columns (built_processors ps d) =
     replicate (length (built_processors ps d)) (min_valid_columns_in_scan_local ps)"
  by (simp add: built_processors_def)

lemma built_processors_kinds:
  "map processor_kind (built_processors ps d) =
     filter (\<lambda>k. check_token (tokens ps) (kind_token k)) [PCL, SCAN, IMG]"
  by (simp add: built_processors_def)

lemma built_processors_threshold:
  "p \<in> set (built_processors ps d) \<Longrightarrow>
   captured_min_valid_columns p = param (min_valid_columns_in_scan ps) 0"
  by (auto simp: built_processors_def min_valid_columns_in_scan_local_def split: if_splits)

lemma zip_returns:
  "zip (map f [0..<k]) (map g [0..<k]) = map (\<lambda>i. (f i, g i)) [0..<k]"
  by (simp add: zip_map_map zip_same_conv_map)

lemma returns_frame_published:
  assumes "min_valid_columns \<le> valid_columns"
  shows "lidar_pubs d = returns_pubs ext base n \<Longrightarrow>
     \<exists>d'. output_callback min_valid_columns (point_cloud_frame n payload valid_columns) d = Inr d' \<and>
       published d' = published d @
         map (\<lambda>i. (Advertised (topic_for_return ext base (int i)) 10, payload i)) [0..<nat n]"
    and "scan_pubs d = returns_pubs ext base n \<Longrightarrow>
     \<exists>d'. output_callback min_valid_columns (laser_scan_frame n payload valid_columns) d = Inr d' \<and>
       published d' = published d @
         map (\<lambda>i. (Advertised (topic_for_return ext base (int i)) 10, payload i)) [0..<nat n]"
proof -
  show "\<exists>d'. output_callback min_valid_columns (point_cloud_frame n payload valid_columns) d = Inr d' \<and>
       published d' = published d @
         map (\<lambda>i. (Advertised (topic_for_return ext base (int i)) 10, payload i)) [0..<nat n]"
    if "lidar_pubs d = returns_pubs ext base n"
    using output_callback_forwards [of min_valid_columns "point_cloud_frame n payload valid_columns" d]
      assms that
    by (simp add: point_cloud_frame_def returns_pubs_def zip_returns)
  show "\<exists>d'. output_callback min_valid_columns (laser_scan_frame n payload valid_columns) d = Inr d' \<and>
       published d' = published d @
         map (\<lambda>i. (Advertised (topic_for_return ext base (int i)) 10, payload i)) [0..<nat n]"
    if "scan_pubs d = returns_pubs ext base n"
    using output_callback_forwards [of min_valid_columns "laser_scan_frame n payload valid_columns" d]
      assms that
    by (simp add: laser_scan_frame_def returns_pubs_def zip_returns)
qed

lemma tokens_recognized: "tokens ps \<subseteq> set recognized_tokens"
  by (auto simp: tokens_def parse_tokens_def)

lemma tokens_of_mask:
  "proc_mask ps = Some input \<Longrightarrow>
   tokens ps = set recognized_tokens \<inter> set (split_tokens CHR ''|'' input)"
  by (auto simp: tokens_def parse_tokens_def param_def)

lemma tokens_IMU_PCL:
  "proc_mask ps = Some ''IMU|PCL'' \<Longrightarrow> tokens ps = {''IMU'', ''PCL''}"
  by (simp add: tokens_def parse_tokens_def param_def recognized_tokens_def)

lemma laser_scan_callback_drops_silently:
  "scan_num_valid_columns data < min_valid_columns \<Longrightarrow>
   laser_scan_callback min_valid_columns data d = Inr d"
  by (simp add: laser_scan_callback_def)

lemma image_callback_drops_silently:
  "image_num_valid_columns data < min_valid_columns \<Longrightarrow>
   image_callback min_valid_columns data d = Inr d"
  by (simp add: image_callback_def)

lemma point_cloud_callback_drops_with_warning:
  "pc_num_valid_columns data < min_valid_columns \<Longrightarrow>
   point_cloud_callback min_valid_columns data d =
     Inr (d\<lparr>warnings := warnings d @
            [Incomplete_cloud (pc_num_valid_columns data) min_valid_columns]\<rparr>)"
  by (simp add: point_cloud_callback_def warn_def)

lemma bitlen_53: "\<bar>m\<bar> < 2 ^ 53 \<Longrightarrow> bitlen \<bar>m\<bar> \<le> 53"
  by (simp add: bitlen_le_iff_power)

lemma round_to_double_exact:
  assumes "\<bar>m\<bar> < 2 ^ 53"
  shows "round_to_double m 0 = Finite m 0"
proof -
  have "bitlen \<bar>m\<bar> \<le> 53" using assms by (rule bitlen_53)
  then show ?thesis
    by (simp add: round_to_double_def Let_def max_def)
qed

lemma double_of_int_exact: "\<bar>n\<bar> < 2 ^ 53 \<Longrightarrow> double_of_int n = Finite n 0"
  by (simp add: double_of_int_def round_to_double_exact)

lemma offset_to_ns_whole_seconds:
  assumes "\<bar>seconds\<bar> * 1000000000 < 2 ^ 53"
  shows "offset_to_ns (double_of_int seconds) = Inr (seconds * 1000000000)"
proof -
  have s: "\<bar>seconds\<bar> < 2 ^ 53" using assms by simp
  have p: "\<bar>seconds * 1000000000\<bar> < 2 ^ 53" using assms by (simp add: abs_mult)
  have d1: "double_of_int seconds = Finite seconds 0"
    using s by (rule double_of_int_exact)
  have d2: "double_of_int 1000000000 = Finite 1000000000 0"
    by (rule double_of_int_exact) simp
  have "double_mult (double_of_int seconds) (double_of_int 1000000000)
          = Finite (seconds * 1000000000) 0"
    using round_to_double_exact [OF p] by (simp add: d1 d2)
  moreover have "- (2 ^ 63) \<le> seconds * 1000000000 \<and> seconds * 1000000000 < (2 ^ 63 :: int)"
  proof -
    have "(2 :: int) ^ 53 \<le> 2 ^ 63" by simp
    with p show ?thesis by linarith
  qed
  ultimately show ?thesis
    by (simp add: offset_to_ns_def double_to_int64_def)
qed

subsection \<open>The example configurations\<close>

lemma offset_to_ns_default: "offset_to_ns (double_of_int (- 37)) = Inr (- 37000000000)"
  by code_simp

lemma static_cast_int_64: "static_cast_int 64 = 64"
  by (simp add: static_cast_int_def)

lemma example_driver_returns:
  "0 \<le> n \<Longrightarrow> ptp_utc_tai_offset ps = None \<Longrightarrow>
   \<exists>d'. create_publishers ext ps (example_driver n) = Inr d'"
  by (rule create_publishers_returns [where ns = "- 37000000000"])
     (simp_all add: ptp_utc_tai_offset_local_def param_def offset_to_ns_default
        example_driver_def static_cast_int_64)

lemma tokens_IMU: "tokens (default_params\<lparr>proc_mask := Some ''IMU''\<rparr>) = {''IMU''}"
  by (simp add: tokens_def parse_tokens_def param_def recognized_tokens_def default_params_def)

lemma tokens_PCL: "tokens (default_params\<lparr>proc_mask := Some ''PCL''\<rparr>) = {''PCL''}"
  by (simp add: tokens_def parse_tokens_def param_def recognized_tokens_def default_params_def)

lemma tokens_default:
  "tokens default_params = {''IMU'', ''IMG'', ''PCL'', ''SCAN''}"
  by (simp add: tokens_def parse_tokens_def param_def recognized_tokens_def default_params_def)

subsection \<open>Frames below the threshold are dropped, the others delivered once\<close>

text \<open>
  Claim C1. For every spatial output frame produced by a processor that
  \<open>create_publishers\<close> has built (point cloud, laser scan or image), the threshold its
  callback has captured is the configured \<open>min_valid_columns_in_scan\<close> (0 when the
  parameter is not set): when the frame's count of valid columns is below the configured
  threshold the callback returns without any \<open>publish\<close> call; when the count is at
  least the threshold (and no return index of the frame is past the publishers) the
  \<open>publish\<close> calls made are exactly the frame's deliveries, one call per message of the
  frame, each on the publisher of its return index or channel field, in the order of the
  frame. The callbacks behave so for any threshold they capture.
\<close>

theorem frame_filter:
  "(create_publishers ext ps d0 = Inr d1 \<and>
    (check_token (tokens ps) ''PCL'' \<or> check_token (tokens ps) ''SCAN'' \<or>
     check_token (tokens ps) ''IMG'') \<and>
    lidar_packet_handler d1 = Some h \<and> p \<in> set (lidar_processors h) \<and>
    frame_kind frame = processor_kind p \<longrightarrow>
      captured_min_valid_columns p = param (min_valid_columns_in_scan ps) 0 \<and>
      (valid_column_count frame < param (min_valid_columns_in_scan ps) 0 \<longrightarrow>
         (\<exists>d'. output_callback (captured_min_valid_columns p) frame d = Inr d' \<and>
               published d' = published d)) \<and>
      (param (min_valid_columns_in_scan ps) 0 \<le> valid_column_count frame \<and>
       frame_fits frame d \<longrightarrow>
         (\<exists>d'. output_callback (captured_min_valid_columns p) frame d = Inr d' \<and>
               published d' = published d @ deliveries frame d \<and>
               map snd (deliveries frame d) = sub_payloads frame))) \<and>
   (valid_column_count frame < min_valid_columns \<longrightarrow>
      (\<exists>d'. output_callback min_valid_columns frame d = Inr d' \<and> published d' = published d)) \<and>
   (min_valid_columns \<le> valid_column_count frame \<and> frame_fits frame d \<longrightarrow>
      (\<exists>d'. output_callback min_valid_columns frame d = Inr d' \<and>
            published d' = published d @ deliveries frame d \<and>
            map snd (deliveries frame d) = sub_payloads frame))"
proof -
  have thr: "captured_min_valid_columns p = param (min_valid_columns_in_scan ps) 0"
    if c: "create_publishers ext ps d0 = Inr d1"
      and t: "check_token (tokens ps) ''PCL'' \<or> check_token (tokens ps) ''SCAN'' \<or>
              check_token (tokens ps) ''IMG''"
      and h: "lidar_packet_handler d1 = Some h" and p: "p \<in> set (lidar_processors h)"
  proof -
    from create_publishers_lidar_handler(1) [OF c t] h
    have "lidar_processors h = built_processors ps d0" by auto
    with p show ?thesis by (simp add: built_processors_threshold)
  qed
  have any: "(valid_column_count frame < t \<longrightarrow>
      (\<exists>d'. output_callback t frame d = Inr d' \<and> published d' = published d)) \<and>
   (t \<le> valid_column_count frame \<and> frame_fits frame d \<longrightarrow>
      (\<exists>d'. output_callback t frame d = Inr d' \<and>
            published d' = published d @ deliveries frame d \<and>
            map snd (deliveries frame d) = sub_payloads frame))" for t
    using output_callback_drops [of frame t d] output_callback_forwards [of t frame d]
      deliveries_messages [of frame d]
    by auto
  show ?thesis
    using thr any [of min_valid_columns] any [of "param (min_valid_columns_in_scan ps) 0"]
    by (intro conjI impI) (simp_all only:)
qed

text \<open>
  A configuration with the threshold set to 5 on the two-return example, followed on the
  configured driver by point cloud frames with 3 and with 5 valid columns: the first
  makes no call, the second one call per return on the publishers of the configuration.
  Then the laser scan callback with a captured threshold of 5.
\<close>

theorem frame_filter_witness:
  "(\<exists>d1 h p.
      create_publishers example_externals
        (default_params\<lparr>min_valid_columns_in_scan := Some 5\<rparr>) (example_driver 2) = Inr d1 \<and>
      lidar_packet_handler d1 = Some h \<and> p \<in> set (lidar_processors h) \<and>
      processor_kind p = PCL \<and> captured_min_valid_columns p = 5 \<and>
      (\<exists>d'. output_callback (captured_min_valid_columns p)
              (PointCloudFrame \<lparr>pc_msgs = [7, 8], pc_num_valid_columns = 3\<rparr>) d1 = Inr d' \<and>
            published d' = []) \<and>
      (\<exists>d'. output_callback (captured_min_valid_columns p)
              (PointCloudFrame \<lparr>pc_msgs = [7, 8], pc_num_valid_columns = 5\<rparr>) d1 = Inr d' \<and>
            published d' = [(Advertised ''points'' 10, 7), (Advertised ''points2'' 10, 8)])) \<and>
   (\<exists>d'. output_callback 5
           (LaserScanFrame \<lparr>scan_msgs = [7, 8], scan_num_valid_columns = 3\<rparr>)
           ((example_driver 2)\<lparr>scan_pubs :=
              [Advertised ''scan'' 10, Advertised ''scan2'' 10]\<rparr>) = Inr d' \<and>
         published d' = []) \<and>
   (\<exists>d'. output_callback 5
           (LaserScanFrame \<lparr>scan_msgs = [7, 8], scan_num_valid_columns = 10\<rparr>)
           ((example_driver 2)\<lparr>scan_pubs :=
              [Advertised ''scan'' 10, Advertised ''scan2'' 10]\<rparr>) = Inr d' \<and>
         published d' = [(Advertised ''scan'' 10, 7), (Advertised ''scan2'' 10, 8)])"
proof -
  let ?ps = "default_params\<lparr>min_valid_columns_in_scan := Some 5\<rparr>"
  let ?p = "PointCloudProcessor ''original'' (info (example_driver 2)) ''os_sensor'' True 5"
  let ?lo = "PointCloudFrame \<lparr>pc_msgs = [7, 8], pc_num_valid_columns = 3\<rparr> :: nat OutputFrame"
  let ?hi = "PointCloudFrame \<lparr>pc_msgs = [7, 8], pc_num_valid_columns = 5\<rparr> :: nat OutputFrame"
  let ?slo = "LaserScanFrame \<lparr>scan_msgs = [7, 8], scan_num_valid_columns = 3\<rparr> :: nat OutputFrame"
  let ?shi = "LaserScanFrame \<lparr>scan_msgs = [7, 8], scan_num_valid_columns = 10\<rparr> :: nat OutputFrame"
  let ?d = "(example_driver 2)\<lparr>scan_pubs := [Advertised ''scan'' 10, Advertised ''scan2'' 10]\<rparr>"
  obtain d1 where d1: "create_publishers example_externals ?ps (example_driver 2) = Inr d1"
    using example_driver_returns [of 2 ?ps example_externals]
    by (auto simp: default_params_def)
  have t: "tokens ?ps = tokens default_params" by (simp add: tokens_def default_params_def)
  have tk: "check_token (tokens ?ps) ''PCL''"
    by (simp add: t tokens_default check_token_def)
  then have sp: "check_token (tokens ?ps) ''PCL'' \<or> check_token (tokens ?ps) ''SCAN'' \<or>
      check_token (tokens ?ps) ''IMG''" by simp
  from create_publishers_lidar_handler(1) [OF d1 sp]
  obtain h where h: "lidar_packet_handler d1 = Some h"
    and ps: "lidar_processors h = built_processors ?ps (example_driver 2)"
    by auto
  have p: "?p \<in> set (lidar_processors h)"
    using tk by (simp add: ps built_processors_def param_def default_params_def
      min_valid_columns_in_scan_local_def example_driver_def)
  have e: "param (min_valid_columns_in_scan ?ps) 0 = 5" by (simp add: param_def)
  have pubs: "lidar_pubs d1 = [Advertised ''points'' 10, Advertised ''points2'' 10]"
    and pd: "published d1 = []"
    using create_publishers_Inr(3,4) [OF d1] tk
    by (simp_all add: returns_pubs_def example_driver_def example_externals_def upt_rec)
  have k: "frame_kind ?lo = processor_kind ?p" "frame_kind ?hi = processor_kind ?p" by simp_all
  note lo = frame_filter [where ext = example_externals and ps = ?ps and ?d0.0 = "example_driver 2"
      and ?d1.0 = d1 and h = h and p = ?p and frame = ?lo and d = d1 and min_valid_columns = 5,
      THEN conjunct1, rule_format, OF conjI [OF d1 conjI [OF sp conjI [OF h conjI [OF p k(1)]]]]]
  note hi = frame_filter [where ext = example_externals and ps = ?ps and ?d0.0 = "example_driver 2"
      and ?d1.0 = d1 and h = h and p = ?p and frame = ?hi and d = d1 and min_valid_columns = 5,
      THEN conjunct1, rule_format, OF conjI [OF d1 conjI [OF sp conjI [OF h conjI [OF p k(2)]]]]]
  have a: "\<exists>d'. output_callback (captured_min_valid_columns ?p) ?lo d1 = Inr d' \<and> published d' = []"
    using lo by (simp add: e pd)
  have b: "\<exists>d'. output_callback (captured_min_valid_columns ?p) ?hi d1 = Inr d' \<and>
      published d' = [(Advertised ''points'' 10, 7), (Advertised ''points2'' 10, 8)]"
    using hi by (simp add: e pd pubs)
  have c: "\<exists>d'. output_callback 5 ?slo ?d = Inr d' \<and> published d' = []"
    using frame_filter [where ext = example_externals and ps = ?ps and ?d0.0 = "example_driver 2"
      and ?d1.0 = d1 and h = h and p = ?p and frame = ?slo and d = ?d and min_valid_columns = 5]
    by (simp add: example_driver_def)
  have d: "\<exists>d'. output_callback 5 ?shi ?d = Inr d' \<and>
      published d' = [(Advertised ''scan'' 10, 7), (Advertised ''scan2'' 10, 8)]"
    using frame_filter [where ext = example_externals and ps = ?ps and ?d0.0 = "example_driver 2"
      and ?d1.0 = d1 and h = h and p = ?p and frame = ?shi and d = ?d and min_valid_columns = 5]
    by (simp add: example_driver_def)
  have "processor_kind ?p = PCL" "captured_min_valid_columns ?p = 5" by simp_all
  with d1 h p a b c d show ?thesis by blast
qed

subsection \<open>The mask selects the processors\<close>

text \<open>
  Claim C2. Which handlers and processors \<open>create_publishers\<close> builds is decided by the
  recognized tokens of the mask alone: the tokens are the recognized names (IMU, PCL,
  SCAN, IMG) that occur between the delimiters, anything else being ignored; the IMU
  handler is built exactly when IMU is among them, and the lidar handler is built over
  exactly the processors whose tokens are among them, in the order point cloud, laser
  scan, image. For the mask "IMU|PCL" the configuration returns, the IMU handler is built
  and the lidar handler holds the point cloud processor and nothing else: no laser scan
  and no image processor exists to be called on a packet.
\<close>

theorem processor_selection:
  "(create_publishers ext ps d = Inr d' \<longrightarrow>
      (check_token (tokens ps) ''IMU'' \<longrightarrow> (\<exists>h. imu_packet_handler d' = Some h)) \<and>
      (\<not> check_token (tokens ps) ''IMU'' \<longrightarrow> imu_packet_handler d' = imu_packet_handler d) \<and>
      (check_token (tokens ps) ''PCL'' \<or> check_token (tokens ps) ''SCAN'' \<or>
       check_token (tokens ps) ''IMG'' \<longrightarrow>
         (\<exists>h. lidar_packet_handler d' = Some h \<and>
              map processor_kind (lidar_processors h) =
                filter (\<lambda>k. check_token (tokens ps) (kind_token k)) [PCL, SCAN, IMG])) \<and>
      (\<not> (check_token (tokens ps) ''PCL'' \<or> check_token (tokens ps) ''SCAN'' \<or>
          check_token (tokens ps) ''IMG'') \<longrightarrow>
         lidar_packet_handler d' = lidar_packet_handler d)) \<and>
   (proc_mask ps = Some input \<longrightarrow>
      tokens ps = set recognized_tokens \<inter> set (split_tokens CHR ''|'' input)) \<and>
   (proc_mask ps = Some ''IMU|PCL'' \<and> 0 \<le> get_n_returns (info d) \<and>
    offset_to_ns (ptp_utc_tai_offset_local ps) = Inr ns \<longrightarrow>
      (\<exists>d' ih lh. create_publishers ext ps d = Inr d' \<and>
         imu_packet_handler d' = Some ih \<and> lidar_packet_handler d' = Some lh \<and>
         map processor_kind (lidar_processors lh) = [PCL]))"
proof -
  have sel: "(check_token (tokens ps) ''IMU'' \<longrightarrow> (\<exists>h. imu_packet_handler d' = Some h)) \<and>
      (\<not> check_token (tokens ps) ''IMU'' \<longrightarrow> imu_packet_handler d' = imu_packet_handler d) \<and>
      (check_token (tokens ps) ''PCL'' \<or> check_token (tokens ps) ''SCAN'' \<or>
       check_token (tokens ps) ''IMG'' \<longrightarrow>
         (\<exists>h. lidar_packet_handler d' = Some h \<and>
              map processor_kind (lidar_processors h) =
                filter (\<lambda>k. check_token (tokens ps) (kind_token k)) [PCL, SCAN, IMG])) \<and>
      (\<not> (check_token (tokens ps) ''PCL'' \<or> check_token (tokens ps) ''SCAN'' \<or>
          check_token (tokens ps) ''IMG'') \<longrightarrow>
         lidar_packet_handler d' = lidar_packet_handler d)"
    if c: "create_publishers ext ps d = Inr d'" for d'
    using create_publishers_imu_handler [OF c] create_publishers_lidar_handler [OF c]
      built_processors_kinds [of ps d]
    by (intro conjI impI) (fastforce+)
  have scen: "\<exists>d' ih lh. create_publishers ext ps d = Inr d' \<and>
         imu_packet_handler d' = Some ih \<and> lidar_packet_handler d' = Some lh \<and>
         map processor_kind (lidar_processors lh) = [PCL]"
    if m: "proc_mask ps = Some ''IMU|PCL''" and n: "0 \<le> get_n_returns (info d)"
      and o: "offset_to_ns (ptp_utc_tai_offset_local ps) = Inr ns"
  proof -
    have t: "tokens ps = {''IMU'', ''PCL''}" using m by (rule tokens_IMU_PCL)
    have "\<exists>d1. create_publishers ext ps d = Inr d1"
    proof -
      obtain d1 where s1: "create_imu_handler ps d = Inr d1"
        using o by (auto simp: create_imu_handler_Inr t check_token_def)
      note f1 = create_imu_handler_fields [OF s1]
      have "0 \<le> get_n_returns (info d1)" using n f1(1) by simp
      then obtain d2 p2 where
        s2: "create_point_cloud_processor ext ps (get_n_returns (info d1)) (d1, []) = Inr (d2, p2)"
        by (auto simp: create_point_cloud_processor_Inr t check_token_def)
      have s3: "create_laser_scan_processor ext ps (get_n_returns (info d1)) (d2, p2) = Inr (d2, p2)"
        by (simp add: create_laser_scan_processor_Inr t check_token_def)
      have s4: "create_image_processor ps (get_n_returns (info d1)) (d2, p2) = Inr (d2, p2)"
        by (simp add: create_image_processor_Inr t check_token_def)
      obtain d5 where s5: "create_lidar_handler ps (d2, p2) = Inr d5"
        using o by (auto simp: create_lidar_handler_Inr t check_token_def)
      have "create_publishers ext ps d = Inr d5"
        unfolding create_publishers_def and_then_Inr Let_def
        using s1 s2 s3 s4 s5 by blast
      then show ?thesis ..
    qed
    then obtain d1 where c: "create_publishers ext ps d = Inr d1" ..
    from sel [OF c] show ?thesis
      using c by (auto simp: t check_token_def)
  qed
  show ?thesis
    using sel scen tokens_of_mask [of ps input] by blast
qed

text \<open>
  The mask "IMU|PCL" with the default offset on the two-return example, and a mask with
  a token that is not recognized.
\<close>

theorem processor_selection_witness:
  "(\<exists>d' ih lh.
      create_publishers example_externals (default_params\<lparr>proc_mask := Some ''IMU|PCL''\<rparr>)
        (example_driver 2) = Inr d' \<and>
      imu_packet_handler d' = Some ih \<and> lidar_packet_handler d' = Some lh \<and>
      map processor_kind (lidar_processors lh) = [PCL]) \<and>
   tokens (default_params\<lparr>proc_mask := Some ''IMU|lidar|PCL''\<rparr>) = {''IMU'', ''PCL''}"
proof -
  let ?ps = "default_params\<lparr>proc_mask := Some ''IMU|PCL''\<rparr>"
  let ?qs = "default_params\<lparr>proc_mask := Some ''IMU|lidar|PCL''\<rparr>"
  have o: "offset_to_ns (ptp_utc_tai_offset_local ?ps) = Inr (- 37000000000)"
    by (simp add: ptp_utc_tai_offset_local_def param_def default_params_def offset_to_ns_default)
  have m: "proc_mask ?ps = Some ''IMU|PCL''" by simp
  have n: "0 \<le> get_n_returns (info (example_driver 2))" by (simp add: example_driver_def)
  have q: "proc_mask ?qs = Some ''IMU|lidar|PCL''" by simp
  note a = processor_selection [where ext = example_externals and ps = ?qs
      and d = "example_driver 2" and d' = "example_driver 2" and input = "''IMU|lidar|PCL''"
      and ns = 0, THEN conjunct2, THEN conjunct1, rule_format, OF q]
  note b = processor_selection [where ext = example_externals and ps = ?ps
      and d = "example_driver 2" and d' = "example_driver 2" and input = "''IMU|PCL''"
      and ns = "- 37000000000", THEN conjunct2, THEN conjunct2, rule_format, OF conjI [OF m conjI [OF n o]]]
  have "tokens ?qs = {''IMU'', ''PCL''}"
    using a by (simp add: recognized_tokens_def)
  with b show ?thesis by blast
qed

subsection \<open>The filter is strict and lets every frame pass by default\<close>

text \<open>
  Claim C3. The filter compares with a strict less-than: a frame one column short of the
  threshold is dropped, a frame with exactly the threshold is forwarded. The parameter
  defaults to 0: when it is not set, every processor that \<open>create_publishers\<close> builds
  captures the threshold 0, and with the threshold 0 every frame passes, a count of valid
  columns being at least 0 (so any frame that is not empty is forwarded).
\<close>

theorem default_threshold_passes:
  "min_valid_columns_in_scan_local (ps\<lparr>min_valid_columns_in_scan := None\<rparr>) = 0 \<and>
   (create_publishers ext ps d0 = Inr d1 \<and> min_valid_columns_in_scan ps = None \<and>
    (check_token (tokens ps) ''PCL'' \<or> check_token (tokens ps) ''SCAN'' \<or>
     check_token (tokens ps) ''IMG'') \<longrightarrow>
      (\<exists>h. lidar_packet_handler d1 = Some h \<and>
           map captured_min_valid_columns (lidar_processors h) =
             replicate (length (lidar_processors h)) 0)) \<and>
   (valid_column_count frame = min_valid_columns - 1 \<longrightarrow>
      (\<exists>d'. output_callback min_valid_columns frame d = Inr d' \<and> published d' = published d)) \<and>
   (valid_column_count frame = min_valid_columns \<and> frame_fits frame d \<longrightarrow>
      (\<exists>d'. output_callback min_valid_columns frame d = Inr d' \<and>
            published d' = published d @ deliveries frame d)) \<and>
   (0 \<le> valid_column_count frame \<and> frame_fits frame d \<longrightarrow>
      (\<exists>d'. output_callback 0 frame d = Inr d' \<and>
            published d' = published d @ deliveries frame d))"
proof -
  have cfg: "\<exists>h. lidar_packet_handler d1 = Some h \<and>
           map captured_min_valid_columns (lidar_processors h) =
             replicate (length (lidar_processors h)) 0"
    if c: "create_publishers ext ps d0 = Inr d1" and n: "min_valid_columns_in_scan ps = None"
      and t: "check_token (tokens ps) ''PCL'' \<or> check_token (tokens ps) ''SCAN'' \<or>
              check_token (tokens ps) ''IMG''"
  proof -
    from create_publishers_lidar_handler(1) [OF c t]
    obtain ns where h: "lidar_packet_handler d1 = Some
        \<lparr>lidar_info = info d0, lidar_processors = built_processors ps d0,
         lidar_timestamp_mode = timestamp_mode_local ps, lidar_ptp_utc_tai_offset = ns\<rparr>"
      by blast
    have "min_valid_columns_in_scan_local ps = 0"
      using n by (simp add: min_valid_columns_in_scan_local_def param_def)
    with h built_processors_thresholds [of ps d0] show ?thesis by simp
  qed
  have dflt: "min_valid_columns_in_scan_local (ps\<lparr>min_valid_columns_in_scan := None\<rparr>) = 0"
    by (simp add: min_valid_columns_in_scan_local_def param_def)
  show ?thesis
    using dflt cfg
      output_callback_drops [of frame min_valid_columns d]
      output_callback_forwards [of min_valid_columns frame d]
      output_callback_forwards [of 0 frame d]
    by auto
qed

text \<open>
  The default configuration, and laser scan frames with 4 and 5 valid columns against a
  threshold of 5 and with 1 valid column against the default threshold.
\<close>

theorem default_threshold_passes_witness:
  "(\<exists>d1 h. create_publishers example_externals default_params (example_driver 2) = Inr d1 \<and>
      lidar_packet_handler d1 = Some h \<and>
      map captured_min_valid_columns (lidar_processors h) =
        replicate (length (lidar_processors h)) 0) \<and>
   (\<exists>d'. output_callback 5
           (LaserScanFrame \<lparr>scan_msgs = [7, 8], scan_num_valid_columns = 4\<rparr>)
           ((example_driver 2)\<lparr>scan_pubs := [Advertised ''scan'' 10, Advertised ''scan2'' 10]\<rparr>)
           = Inr d' \<and> published d' = []) \<and>
   (\<exists>d'. output_callback 5
           (LaserScanFrame \<lparr>scan_msgs = [7, 8], scan_num_valid_columns = 5\<rparr>)
           ((example_driver 2)\<lparr>scan_pubs := [Advertised ''scan'' 10, Advertised ''scan2'' 10]\<rparr>)
           = Inr d' \<and>
         published d' = [(Advertised ''scan'' 10, 7), (Advertised ''scan2'' 10, 8)]) \<and>
   (\<exists>d'. output_callback 0
           (LaserScanFrame \<lparr>scan_msgs = [7, 8], scan_num_valid_columns = 1\<rparr>)
           ((example_driver 2)\<lparr>scan_pubs := [Advertised ''scan'' 10, Advertised ''scan2'' 10]\<rparr>)
           = Inr d' \<and>
         published d' = [(Advertised ''scan'' 10, 7), (Advertised ''scan2'' 10, 8)])"
proof -
  let ?d = "(example_driver 2)\<lparr>scan_pubs := [Advertised ''scan'' 10, Advertised ''scan2'' 10]\<rparr>"
  obtain d1 where d1: "create_publishers example_externals default_params (example_driver 2) = Inr d1"
    using example_driver_returns [of 2 default_params example_externals]
    by (auto simp: default_params_def)
  have t: "check_token (tokens default_params) ''SCAN''"
    by (simp add: tokens_default check_token_def)
  have n: "min_valid_columns_in_scan default_params = None"
    by (simp add: default_params_def)
  have e: "published ?d = []" "scan_pubs ?d = [Advertised ''scan'' 10, Advertised ''scan2'' 10]"
    by (simp_all add: example_driver_def)
  show ?thesis
    using default_threshold_passes [of default_params example_externals "example_driver 2" d1
            "LaserScanFrame \<lparr>scan_msgs = [7, 8], scan_num_valid_columns = 4\<rparr>" 5 ?d]
          default_threshold_passes [of default_params example_externals "example_driver 2" d1
            "LaserScanFrame \<lparr>scan_msgs = [7, 8], scan_num_valid_columns = 5\<rparr>" 5 ?d]
          default_threshold_passes [of default_params example_externals "example_driver 2" d1
            "LaserScanFrame \<lparr>scan_msgs = [7, 8], scan_num_valid_columns = 1\<rparr>" 1 ?d]
          d1 t n
    by (simp add: e)
qed

subsection \<open>One publisher and one sub-payload per return\<close>

text \<open>
  Claim C4. When the mask holds PCL (or SCAN), \<open>create_publishers\<close> leaves exactly
  \<open>num_returns\<close> point cloud (or laser scan) publishers, the one at index \<open>i\<close> on the
  topic of return \<open>i\<close>. A frame of a processor carries exactly \<open>num_returns\<close>
  sub-payloads (two on a dual-return sensor, one on a single-return one), and when it is
  forwarded the sub-payload of each return index is published on the publisher of that
  index, once.
\<close>

theorem one_publisher_and_payload_per_return:
  "length (sub_payloads (point_cloud_frame n payload valid_columns)) = nat n \<and>
   length (sub_payloads (laser_scan_frame n payload valid_columns)) = nat n \<and>
   length (sub_payloads (point_cloud_frame 2 payload valid_columns)) = 2 \<and>
   length (sub_payloads (point_cloud_frame 1 payload valid_columns)) = 1 \<and>
   length (sub_payloads (laser_scan_frame 2 payload valid_columns)) = 2 \<and>
   length (sub_payloads (laser_scan_frame 1 payload valid_columns)) = 1 \<and>
   (create_publishers ext ps d0 = Inr d \<and> check_token (tokens ps) ''PCL'' \<and>
    n = get_n_returns (info d0) \<longrightarrow>
      length (lidar_pubs d) = nat n \<and>
      lidar_pubs d = map (\<lambda>i. Advertised (topic_for_return ext ''points'' (int i)) 10) [0..<nat n] \<and>
      (min_valid_columns \<le> valid_columns \<longrightarrow>
         (\<exists>d'. output_callback min_valid_columns (point_cloud_frame n payload valid_columns) d
                 = Inr d' \<and>
               published d' = published d @
                 map (\<lambda>i. (Advertised (topic_for_return ext ''points'' (int i)) 10, payload i))
                   [0..<nat n]))) \<and>
   (create_publishers ext ps d0 = Inr d \<and> check_token (tokens ps) ''SCAN'' \<and>
    n = get_n_returns (info d0) \<longrightarrow>
      length (scan_pubs d) = nat n \<and>
      scan_pubs d = map (\<lambda>i. Advertised (topic_for_return ext ''scan'' (int i)) 10) [0..<nat n] \<and>
      (min_valid_columns \<le> valid_columns \<longrightarrow>
         (\<exists>d'. output_callback min_valid_columns (laser_scan_frame n payload valid_columns) d
                 = Inr d' \<and>
               published d' = published d @
                 map (\<lambda>i. (Advertised (topic_for_return ext ''scan'' (int i)) 10, payload i))
                   [0..<nat n])))"
proof -
  have len: "length (sub_payloads (point_cloud_frame m payload valid_columns)) = nat m"
    "length (sub_payloads (laser_scan_frame m payload valid_columns)) = nat m" for m
    by (simp_all add: point_cloud_frame_def laser_scan_frame_def)
  have pcl: "lidar_pubs d = returns_pubs ext ''points'' n"
    if "create_publishers ext ps d0 = Inr d" "check_token (tokens ps) ''PCL''"
       "n = get_n_returns (info d0)"
    using create_publishers_Inr(4) [OF that(1)] that(2,3) by simp
  have scan: "scan_pubs d = returns_pubs ext ''scan'' n"
    if "create_publishers ext ps d0 = Inr d" "check_token (tokens ps) ''SCAN''"
       "n = get_n_returns (info d0)"
    using create_publishers_Inr(5) [OF that(1)] that(2,3) by simp
  have l: "length (returns_pubs ext base n) = nat n" for base
    by (simp add: returns_pubs_def)
  show ?thesis
    using len [of n] len [of 2] len [of 1] pcl scan l
      returns_frame_published(1) [of min_valid_columns valid_columns d ext "''points''" n payload]
      returns_frame_published(2) [of min_valid_columns valid_columns d ext "''scan''" n payload]
    by (auto simp: returns_pubs_def)
qed

text \<open>The default configuration on a sensor with two returns and on one with one.\<close>

theorem one_publisher_and_payload_per_return_witness:
  "(\<exists>d d' d''.
      create_publishers example_externals default_params (example_driver 2) = Inr d \<and>
      lidar_pubs d = [Advertised ''points'' 10, Advertised ''points2'' 10] \<and>
      scan_pubs d = [Advertised ''scan'' 10, Advertised ''scan2'' 10] \<and>
      output_callback 0 (point_cloud_frame 2 (\<lambda>i. i + 7) 10) d = Inr d' \<and>
      published d' = [(Advertised ''points'' 10, 7), (Advertised ''points2'' 10, 8)] \<and>
      output_callback 0 (laser_scan_frame 2 (\<lambda>i. i + 7) 10) d = Inr d'' \<and>
      published d'' = [(Advertised ''scan'' 10, 7), (Advertised ''scan2'' 10, 8)]) \<and>
   (\<exists>d d' d''.
      create_publishers example_externals default_params (example_driver 1) = Inr d \<and>
      lidar_pubs d = [Advertised ''points'' 10] \<and>
      scan_pubs d = [Advertised ''scan'' 10] \<and>
      output_callback 0 (point_cloud_frame 1 (\<lambda>i. i + 7) 10) d = Inr d' \<and>
      published d' = [(Advertised ''points'' 10, 7)] \<and>
      output_callback 0 (laser_scan_frame 1 (\<lambda>i. i + 7) 10) d = Inr d'' \<and>
      published d'' = [(Advertised ''scan'' 10, 7)])"
proof -
  obtain d1 where d1: "create_publishers example_externals default_params (example_driver 1) = Inr d1"
    using example_driver_returns [of 1 default_params example_externals]
    by (auto simp: default_params_def)
  obtain d2 where d2: "create_publishers example_externals default_params (example_driver 2) = Inr d2"
    using example_driver_returns [of 2 default_params example_externals]
    by (auto simp: default_params_def)
  have t: "check_token (tokens default_params) ''PCL''" "check_token (tokens default_params) ''SCAN''"
    by (simp_all add: tokens_default check_token_def)
  have e: "get_n_returns (info (example_driver n)) = n" "published (example_driver n) = []" for n
    by (simp_all add: example_driver_def)
  have p: "published d1 = []" "published d2 = []"
    using create_publishers_Inr(3) [OF d1] create_publishers_Inr(3) [OF d2] by (simp_all add: e)
  have u: "[0..<2] = [0, 1]" by (simp add: upt_rec)
  from one_publisher_and_payload_per_return [of 2 "\<lambda>i. i + 7" 10 example_externals default_params
         "example_driver 2" d2 0] d2 t
  have 2: "lidar_pubs d2 = [Advertised ''points'' 10, Advertised ''points2'' 10]"
    "scan_pubs d2 = [Advertised ''scan'' 10, Advertised ''scan2'' 10]"
    "\<exists>d'. output_callback 0 (point_cloud_frame 2 (\<lambda>i. i + 7) 10) d2 = Inr d' \<and>
       published d' = [(Advertised ''points'' 10, 7), (Advertised ''points2'' 10, 8)]"
    "\<exists>d'. output_callback 0 (laser_scan_frame 2 (\<lambda>i. i + 7) 10) d2 = Inr d' \<and>
       published d' = [(Advertised ''scan'' 10, 7), (Advertised ''scan2'' 10, 8)]"
    by (simp_all add: e p u example_externals_def)
  from one_publisher_and_payload_per_return [of 1 "\<lambda>i. i + 7" 10 example_externals default_params
         "example_driver 1" d1 0] d1 t
  have 1: "lidar_pubs d1 = [Advertised ''points'' 10]"
    "scan_pubs d1 = [Advertised ''scan'' 10]"
    "\<exists>d'. output_callback 0 (point_cloud_frame 1 (\<lambda>i. i + 7) 10) d1 = Inr d' \<and>
       published d' = [(Advertised ''points'' 10, 7)]"
    "\<exists>d'. output_callback 0 (laser_scan_frame 1 (\<lambda>i. i + 7) 10) d1 = Inr d' \<and>
       published d' = [(Advertised ''scan'' 10, 7)]"
    by (simp_all add: e p example_externals_def)
  show ?thesis using d1 d2 1 2 by blast
qed

subsection \<open>The scan ring is clamped, and the clamp reported\<close>

text \<open>
  Claim C5. The configured ring index is clamped into the range from 0 to the beam count
  minus one before it is handed to the laser scan processor: on a sensor with at least
  one beam the result is in the range, a request in the range is kept, a request of -1
  gives 0 and a request of the beam count gives the beam count minus one (63 on 64
  beams). When the mask holds SCAN, the laser scan processor is built with the clamped
  ring, and among the warnings of the configuration exactly one reports the clamp when
  the clamped ring differs from the request, and none does otherwise. (The beam count is
  the \<open>size_t\<close> read as an \<open>int\<close>, the same number below \<open>2 ^ 31\<close>.)
\<close>

theorem scan_ring_clamped:
  "(1 \<le> beams_count \<longrightarrow>
      0 \<le> clamp_scan_ring requested beams_count \<and>
      clamp_scan_ring requested beams_count \<le> beams_count - 1 \<and>
      (0 \<le> requested \<and> requested \<le> beams_count - 1 \<longrightarrow>
         clamp_scan_ring requested beams_count = requested) \<and>
      clamp_scan_ring (- 1) beams_count = 0 \<and>
      clamp_scan_ring beams_count beams_count = beams_count - 1) \<and>
   clamp_scan_ring (- 1) 64 = 0 \<and> clamp_scan_ring 64 64 = 63 \<and>
   (beams < 2 ^ 31 \<longrightarrow> static_cast_int beams = int beams) \<and>
   (create_publishers ext ps d = Inr d' \<and> check_token (tokens ps) ''SCAN'' \<longrightarrow>
      (let beams_count' = static_cast_int (get_beams_count (info d));
           ring = clamp_scan_ring (param (scan_ring ps) 0) beams_count'
       in (\<exists>h. lidar_packet_handler d' = Some h \<and>
               filter (\<lambda>p. processor_kind p = SCAN) (lidar_processors h) =
                 [LaserScanProcessor (info d) (lidar_frame_id (tf_bcast d)) ring
                    (min_valid_columns_in_scan_local ps)]) \<and>
          (\<exists>ws. warnings d' = warnings d @ ws \<and>
                filter is_scan_ring_warning ws =
                  (if ring \<noteq> param (scan_ring ps) 0
                   then [Scan_ring_clamped beams_count' ring] else []))))"
proof -
  have cfg: "(\<exists>h. lidar_packet_handler d' = Some h \<and>
               filter (\<lambda>p. processor_kind p = SCAN) (lidar_processors h) =
                 [LaserScanProcessor (info d) (lidar_frame_id (tf_bcast d)) (scan_ring_local ps d)
                    (min_valid_columns_in_scan_local ps)]) \<and>
          (\<exists>ws. warnings d' = warnings d @ ws \<and>
                filter is_scan_ring_warning ws =
                  (if scan_ring_local ps d \<noteq> param (scan_ring ps) 0
                   then [Scan_ring_clamped (static_cast_int (get_beams_count (info d)))
                           (scan_ring_local ps d)] else []))"
    if c: "create_publishers ext ps d = Inr d'" and t: "check_token (tokens ps) ''SCAN''"
  proof
    from create_publishers_lidar_handler(1) [OF c] t
    obtain ns where "lidar_packet_handler d' = Some
        \<lparr>lidar_info = info d, lidar_processors = built_processors ps d,
         lidar_timestamp_mode = timestamp_mode_local ps, lidar_ptp_utc_tai_offset = ns\<rparr>"
      by blast
    then show "\<exists>h. lidar_packet_handler d' = Some h \<and>
               filter (\<lambda>p. processor_kind p = SCAN) (lidar_processors h) =
                 [LaserScanProcessor (info d) (lidar_frame_id (tf_bcast d)) (scan_ring_local ps d)
                    (min_valid_columns_in_scan_local ps)]"
      using t by (simp add: built_processors_def)
  next
    show "\<exists>ws. warnings d' = warnings d @ ws \<and>
                filter is_scan_ring_warning ws =
                  (if scan_ring_local ps d \<noteq> param (scan_ring ps) 0
                   then [Scan_ring_clamped (static_cast_int (get_beams_count (info d)))
                           (scan_ring_local ps d)] else [])"
      using create_publishers_Inr(8) [OF c] t by simp
  qed
  have arith: "1 \<le> beams_count \<longrightarrow>
      0 \<le> clamp_scan_ring requested beams_count \<and>
      clamp_scan_ring requested beams_count \<le> beams_count - 1 \<and>
      (0 \<le> requested \<and> requested \<le> beams_count - 1 \<longrightarrow>
         clamp_scan_ring requested beams_count = requested) \<and>
      clamp_scan_ring (- 1) beams_count = 0 \<and>
      clamp_scan_ring beams_count beams_count = beams_count - 1"
    by (auto simp: clamp_scan_ring_def)
  have sixty_four: "clamp_scan_ring (- 1) 64 = 0 \<and> clamp_scan_ring 64 64 = 63"
    by (simp add: clamp_scan_ring_def)
  show ?thesis
    unfolding Let_def
    using arith sixty_four static_cast_int_small [of beams] cfg [unfolded scan_ring_local_def]
    by blast
qed

text \<open>
  Requests of 100 and 5 on 64 beams, and the default configuration with a requested ring
  of -1 on the 64-beam example: ring 0, one warning.
\<close>

theorem scan_ring_clamped_witness:
  "clamp_scan_ring 100 64 = 63 \<and> clamp_scan_ring 5 64 = 5 \<and> static_cast_int 64 = 64 \<and>
   (\<exists>d' h ws.
      create_publishers example_externals (default_params\<lparr>scan_ring := Some (- 1)\<rparr>)
        (example_driver 2) = Inr d' \<and>
      lidar_packet_handler d' = Some h \<and>
      filter (\<lambda>p. processor_kind p = SCAN) (lidar_processors h) =
        [LaserScanProcessor (info (example_driver 2)) ''os_lidar'' 0 0] \<and>
      warnings d' = ws \<and>
      filter is_scan_ring_warning ws = [Scan_ring_clamped 64 0])"
proof -
  let ?ps = "default_params\<lparr>scan_ring := Some (- 1)\<rparr>"
  obtain d1 where d1: "create_publishers example_externals ?ps (example_driver 2) = Inr d1"
    using example_driver_returns [of 2 ?ps example_externals]
    by (auto simp: default_params_def)
  have t: "tokens ?ps = tokens default_params"
    by (simp add: tokens_def default_params_def)
  have scan: "check_token (tokens ?ps) ''SCAN''"
    by (simp add: t tokens_default check_token_def)
  have e: "get_beams_count (info (example_driver 2)) = 64"
    "lidar_frame_id (tf_bcast (example_driver 2)) = ''os_lidar''"
    "warnings (example_driver 2) = []"
    "param (scan_ring ?ps) 0 = - 1" "min_valid_columns_in_scan_local ?ps = 0"
    by (simp_all add: example_driver_def default_params_def param_def
          min_valid_columns_in_scan_local_def)
  show ?thesis
    using scan_ring_clamped [of 64 100 64 example_externals ?ps "example_driver 2" d1]
          scan_ring_clamped [of 64 5 64 example_externals ?ps "example_driver 2" d1]
          d1 scan
    by (simp add: e Let_def param_def static_cast_int_64 clamp_scan_ring_def)
qed

text \<open>
  The bound on the beam count matters: with no beam at all the range is empty and the
  clamp yields -1.
\<close>

lemma clamp_scan_ring_no_beams: "clamp_scan_ring requested 0 = - 1"
  by (simp add: clamp_scan_ring_def)

subsection \<open>The channel field to topic maps\<close>

text \<open>
  Claim C6. The map from channel fields to topics used for the image publishers is chosen
  by the number of returns alone: for one return it has exactly the four entries RANGE,
  SIGNAL, REFLECTIVITY and NEAR_IR, for two returns exactly seven, with RANGE2, SIGNAL2
  and REFLECTIVITY2 added; the keys of a map are distinct. When the mask holds IMG, one
  image publisher is stored per entry of the chosen map, on the entry's topic, and no
  other entry of \<open>image_pubs\<close> changes; from an empty \<open>image_pubs\<close> the publishers stored
  are as many as the entries.
\<close>

theorem channel_field_topic_map:
  "which_map 1 = channel_field_topic_map_1 \<and>
   which_map 2 = channel_field_topic_map_2 \<and>
   map fst channel_field_topic_map_1 = [RANGE, SIGNAL, REFLECTIVITY, NEAR_IR] \<and>
   map fst channel_field_topic_map_2 =
     [RANGE, SIGNAL, REFLECTIVITY, NEAR_IR, RANGE2, SIGNAL2, REFLECTIVITY2] \<and>
   distinct (map fst (which_map n)) \<and>
   length (which_map 1) = 4 \<and> length (which_map 2) = 7 \<and>
   (create_publishers ext ps d = Inr d' \<and> check_token (tokens ps) ''IMG'' \<longrightarrow>
      (\<forall>field. image_pubs d' field =
         (case map_of (which_map (get_n_returns (info d))) field of
            Some topic \<Rightarrow> Some (Advertised topic 10)
          | None \<Rightarrow> image_pubs d field)) \<and>
      (image_pubs d = Map.empty \<longrightarrow>
         dom (image_pubs d') = set (map fst (which_map (get_n_returns (info d)))) \<and>
         card (dom (image_pubs d')) = length (which_map (get_n_returns (info d)))))"
proof -
  have *: "image_pubs d' field =
         (case map_of (which_map (get_n_returns (info d))) field of
            Some topic \<Rightarrow> Some (Advertised topic 10)
          | None \<Rightarrow> image_pubs d field)"
    if "create_publishers ext ps d = Inr d'" "check_token (tokens ps) ''IMG''" for field
    using create_publishers_Inr(6) [OF that(1)] that(2)
    by (simp add: advertise_images_lookup which_map_distinct)
  have dom: "dom (image_pubs d') = set (map fst (which_map (get_n_returns (info d))))"
    if "create_publishers ext ps d = Inr d'" "check_token (tokens ps) ''IMG''"
       "image_pubs d = Map.empty"
  proof -
    have "dom (image_pubs d') = dom (map_of (which_map (get_n_returns (info d))))"
      using * [OF that(1,2)] that(3) by (auto simp: dom_def split: option.splits)
    then show ?thesis by (simp add: dom_map_of_conv_image_fst)
  qed
  have card: "card (set (map fst (which_map m))) = length (which_map m)" for m
    using distinct_card [OF which_map_distinct [of m]] by simp
  show ?thesis
    using * dom card
    by (simp add: which_map_distinct)
       (simp add: which_map_def channel_field_topic_map_1_def channel_field_topic_map_2_def)
qed

text \<open>The default configuration on a sensor with one return and on one with two.\<close>

theorem channel_field_topic_map_witness:
  "(\<exists>d'. create_publishers example_externals default_params (example_driver 1) = Inr d' \<and>
         image_pubs d' RANGE = Some (Advertised ''range_image'' 10) \<and>
         image_pubs d' RANGE2 = None \<and>
         card (dom (image_pubs d')) = 4) \<and>
   (\<exists>d'. create_publishers example_externals default_params (example_driver 2) = Inr d' \<and>
         image_pubs d' RANGE = Some (Advertised ''range_image'' 10) \<and>
         image_pubs d' RANGE2 = Some (Advertised ''range_image2'' 10) \<and>
         card (dom (image_pubs d')) = 7)"
proof -
  obtain d1 where d1: "create_publishers example_externals default_params (example_driver 1) = Inr d1"
    using example_driver_returns [of 1 default_params example_externals]
    by (auto simp: default_params_def)
  obtain d2 where d2: "create_publishers example_externals default_params (example_driver 2) = Inr d2"
    using example_driver_returns [of 2 default_params example_externals]
    by (auto simp: default_params_def)
  have img: "check_token (tokens default_params) ''IMG''"
    by (simp add: tokens_default check_token_def)
  have e: "image_pubs (example_driver n) = Map.empty" "get_n_returns (info (example_driver n)) = n" for n
    by (simp_all add: example_driver_def)
  from channel_field_topic_map [of 1 example_externals default_params "example_driver 1" d1] d1 img
  have 1: "image_pubs d1 RANGE = Some (Advertised ''range_image'' 10)"
    "image_pubs d1 RANGE2 = None" "card (dom (image_pubs d1)) = 4"
    by (simp_all add: e channel_field_topic_map_1_def)
  from channel_field_topic_map [of 2 example_externals default_params "example_driver 2" d2] d2 img
  have 2: "image_pubs d2 RANGE = Some (Advertised ''range_image'' 10)"
    "image_pubs d2 RANGE2 = Some (Advertised ''range_image2'' 10)" "card (dom (image_pubs d2)) = 7"
    by (simp_all add: e channel_field_topic_map_2_def)
  show ?thesis using d1 d2 1 2 by simp
qed

subsection \<open>The UTC/TAI offset in nanoseconds\<close>

text \<open>
  Claim C7. The offset is configured in seconds, as a \<open>double\<close>; both the IMU handler
  and the lidar handler are built with the same number of nanoseconds, the product of
  the offset and \<open>1e+9\<close> in binary64 arithmetic, truncated towards zero to an
  \<open>int64_t\<close>. The product is exact for a whole number of seconds whose nanoseconds fit
  53 bits, so 37 seconds are 37,000,000,000 ns. In the TAI-corrected mode of the IMU
  transform an offset of 37 s then gives an inertial sample the packet's hardware
  timestamp minus 37,000,000,000 ns.
\<close>

theorem utc_tai_offset_in_nanoseconds:
  "(create_publishers ext ps d = Inr d' \<longrightarrow>
      (check_token (tokens ps) ''IMU'' \<longrightarrow>
         (\<exists>ih. imu_packet_handler d' = Some ih \<and>
               offset_to_ns (ptp_utc_tai_offset_local ps) = Inr (imu_ptp_utc_tai_offset ih))) \<and>
      (check_token (tokens ps) ''PCL'' \<or> check_token (tokens ps) ''SCAN'' \<or>
       check_token (tokens ps) ''IMG'' \<longrightarrow>
         (\<exists>lh. lidar_packet_handler d' = Some lh \<and>
               offset_to_ns (ptp_utc_tai_offset_local ps) = Inr (lidar_ptp_utc_tai_offset lh)))) \<and>
   (\<bar>seconds\<bar> * 1000000000 < 2 ^ 53 \<longrightarrow>
      offset_to_ns (double_of_int seconds) = Inr (seconds * 1000000000)) \<and>
   offset_to_ns (double_of_int 37) = Inr 37000000000 \<and>
   offset_to_ns (Finite 3 (- 1)) = Inr 1500000000 \<and>
   offset_to_ns (Finite 3 (- 31)) = Inr 1 \<and>
   offset_to_ns (Finite (- 3) (- 31)) = Inr (- 1) \<and>
   (create_publishers ext ps d = Inr d' \<and> check_token (tokens ps) ''IMU'' \<and>
    ptp_utc_tai_offset ps = Some (double_of_int 37) \<and>
    mode_of (timestamp_mode_local ps) = Some TAI_corrected \<longrightarrow>
      (\<exists>ih. imu_packet_handler d' = Some ih \<and>
            imu_sample_timestamp mode_of decode_timestamp host_time ih raw_imu_packet =
              decode_timestamp raw_imu_packet - 37000000000))"
proof -
  have cfg: "(check_token (tokens ps) ''IMU'' \<longrightarrow>
         (\<exists>ih. imu_packet_handler d' = Some ih \<and>
               offset_to_ns (ptp_utc_tai_offset_local ps) = Inr (imu_ptp_utc_tai_offset ih))) \<and>
      (check_token (tokens ps) ''PCL'' \<or> check_token (tokens ps) ''SCAN'' \<or>
       check_token (tokens ps) ''IMG'' \<longrightarrow>
         (\<exists>lh. lidar_packet_handler d' = Some lh \<and>
               offset_to_ns (ptp_utc_tai_offset_local ps) = Inr (lidar_ptp_utc_tai_offset lh)))"
    if c: "create_publishers ext ps d = Inr d'"
    using create_publishers_imu_handler(1) [OF c] create_publishers_lidar_handler(1) [OF c]
    by (intro conjI impI) fastforce+
  have whole: "offset_to_ns (double_of_int 37) = Inr 37000000000"
    using offset_to_ns_whole_seconds [of 37] by simp
  have frac: "offset_to_ns (Finite 3 (- 1)) = Inr 1500000000"
    "offset_to_ns (Finite 3 (- 31)) = Inr 1" "offset_to_ns (Finite (- 3) (- 31)) = Inr (- 1)"
    by code_simp+
  have scen: "\<exists>ih. imu_packet_handler d' = Some ih \<and>
            imu_sample_timestamp mode_of decode_timestamp host_time ih raw_imu_packet =
              decode_timestamp raw_imu_packet - 37000000000"
    if c: "create_publishers ext ps d = Inr d'" and t: "check_token (tokens ps) ''IMU''"
      and o: "ptp_utc_tai_offset ps = Some (double_of_int 37)"
      and m: "mode_of (timestamp_mode_local ps) = Some TAI_corrected"
  proof -
    from create_publishers_imu_handler(1) [OF c t]
    obtain ns where ns: "offset_to_ns (ptp_utc_tai_offset_local ps) = Inr ns"
      and h: "imu_packet_handler d' = Some
               \<lparr>imu_info = info d, imu_frame = imu_frame_id (tf_bcast d),
                imu_timestamp_mode = timestamp_mode_local ps, imu_ptp_utc_tai_offset = ns\<rparr>"
      by blast
    have "ns = 37000000000"
      using ns o whole by (simp add: ptp_utc_tai_offset_local_def param_def)
    with h m show ?thesis
      by (simp add: imu_sample_timestamp_def correct_timestamp_def)
  qed
  show ?thesis
    using cfg whole frac scen offset_to_ns_whole_seconds [of seconds] by blast
qed

text \<open>
  An offset of 37 s in a mode that the example reads as TAI-corrected, a packet whose
  hardware timestamp is 100 s; and the default offset of -37 s.
\<close>

theorem utc_tai_offset_in_nanoseconds_witness:
  "(\<exists>d' ih lh.
      create_publishers example_externals
        (default_params\<lparr>timestamp_mode := Some ''TIME_FROM_PTP_1588'',
                         ptp_utc_tai_offset := Some (double_of_int 37)\<rparr>)
        (example_driver 2) = Inr d' \<and>
      imu_packet_handler d' = Some ih \<and> imu_ptp_utc_tai_offset ih = 37000000000 \<and>
      lidar_packet_handler d' = Some lh \<and> lidar_ptp_utc_tai_offset lh = 37000000000 \<and>
      imu_sample_timestamp
        (\<lambda>s. if s = ''TIME_FROM_PTP_1588'' then Some TAI_corrected else None)
        (\<lambda>raw. 100000000000) 0 ih [] = 63000000000) \<and>
   offset_to_ns (double_of_int (- 37)) = Inr (- 37000000000)"
proof -
  let ?ps = "default_params\<lparr>timestamp_mode := Some ''TIME_FROM_PTP_1588'',
                         ptp_utc_tai_offset := Some (double_of_int 37)\<rparr>"
  let ?mode_of = "\<lambda>s. if s = ''TIME_FROM_PTP_1588'' then Some TAI_corrected else None"
  note whole = utc_tai_offset_in_nanoseconds [where ext = example_externals and ps = ?ps
      and d = "example_driver 2" and d' = "example_driver 2" and mode_of = ?mode_of
      and decode_timestamp = "\<lambda>raw. 100000000000" and host_time = 0 and raw_imu_packet = "[]",
      THEN conjunct2, THEN conjunct1, rule_format]
  have neg: "offset_to_ns (double_of_int (- 37)) = Inr (- 37000000000)"
    using whole [of "- 37"] by simp
  have pos: "offset_to_ns (ptp_utc_tai_offset_local ?ps) = Inr 37000000000"
    using whole [of 37] by (simp add: ptp_utc_tai_offset_local_def param_def)
  obtain d1 where d1: "create_publishers example_externals ?ps (example_driver 2) = Inr d1"
    using create_publishers_returns [OF pos, of "example_driver 2" example_externals]
    by (auto simp: example_driver_def static_cast_int_64)
  have t: "tokens ?ps = tokens default_params" by (simp add: tokens_def default_params_def)
  have tk: "check_token (tokens ?ps) ''IMU''" "check_token (tokens ?ps) ''PCL''"
    by (simp_all add: t tokens_default check_token_def)
  have o: "ptp_utc_tai_offset ?ps = Some (double_of_int 37)" by simp
  have m: "?mode_of (timestamp_mode_local ?ps) = Some TAI_corrected"
    by (simp add: timestamp_mode_local_def param_def)
  note u = utc_tai_offset_in_nanoseconds [where ext = example_externals and ps = ?ps
      and d = "example_driver 2" and d' = d1 and seconds = 37 and mode_of = ?mode_of
      and decode_timestamp = "\<lambda>raw. 100000000000" and host_time = 0 and raw_imu_packet = "[]"]
  from u [THEN conjunct1, rule_format, OF d1] tk pos obtain ih lh where
    h: "imu_packet_handler d1 = Some ih" "imu_ptp_utc_tai_offset ih = 37000000000"
    "lidar_packet_handler d1 = Some lh" "lidar_ptp_utc_tai_offset lh = 37000000000"
    by auto
  from u [THEN conjunct2, THEN conjunct2, THEN conjunct2, THEN conjunct2, THEN conjunct2,
          THEN conjunct2, rule_format, OF conjI [OF d1 conjI [OF tk(1) conjI [OF o m]]]] h(1)
  have "imu_sample_timestamp ?mode_of (\<lambda>raw. 100000000000) 0 ih [] = 63000000000"
    by auto
  with h d1 neg show ?thesis by blast
qed

subsection \<open>Only the point cloud callback reports a dropped frame\<close>

text \<open>
  Claim C8 says that every dropped frame is reported with a warning that gives the count
  of valid columns and the threshold, whichever variant produced it. The point cloud
  callback does so. The laser scan and image callbacks return without a word: with a
  threshold of 5 and 3 valid columns they leave the driver, its warnings included, as it
  was.
\<close>

theorem drop_warning_only_for_point_cloud:
  "point_cloud_callback 5 \<lparr>pc_msgs = msgs, pc_num_valid_columns = 3\<rparr> d =
     Inr (d\<lparr>warnings := warnings d @ [Incomplete_cloud 3 5]\<rparr>) \<and>
   laser_scan_callback 5 \<lparr>scan_msgs = msgs, scan_num_valid_columns = 3\<rparr> d = Inr d \<and>
   image_callback 5 \<lparr>image_msgs = images, image_num_valid_columns = 3\<rparr> d = Inr d"
  by (simp add: point_cloud_callback_drops_with_warning laser_scan_callback_drops_silently
        image_callback_drops_silently)

subsection \<open>A packet with no handler is a no-op\<close>

text \<open>
  Claim C9. Until a handler of the matching kind has been built, delivering a packet does
  nothing: with an empty \<open>lidar_packet_handler\<close> a lidar packet returns the state as it
  was (no output, no change, no fault), and with an empty \<open>imu_packet_handler\<close> an
  inertial packet does the same. Both members stay empty through a configuration whose
  mask enables no processor of the kind.
\<close>

theorem no_handler_no_op:
  "(lidar_packet_handler d = None \<longrightarrow> on_lidar_packet_msg run raw_lidar_packet d = Inr d) \<and>
   (imu_packet_handler d = None \<longrightarrow> on_imu_packet_msg imu_run raw_imu_packet d = d) \<and>
   (create_publishers ext ps d = Inr d' \<and> lidar_packet_handler d = None \<and>
    \<not> check_token (tokens ps) ''PCL'' \<and> \<not> check_token (tokens ps) ''SCAN'' \<and>
    \<not> check_token (tokens ps) ''IMG'' \<longrightarrow>
      on_lidar_packet_msg run raw_lidar_packet d' = Inr d') \<and>
   (create_publishers ext ps d = Inr d' \<and> imu_packet_handler d = None \<and>
    \<not> check_token (tokens ps) ''IMU'' \<longrightarrow>
      on_imu_packet_msg imu_run raw_imu_packet d' = d')"
proof -
  have "lidar_packet_handler d' = None"
    if "create_publishers ext ps d = Inr d'" "lidar_packet_handler d = None"
       "\<not> check_token (tokens ps) ''PCL''" "\<not> check_token (tokens ps) ''SCAN''"
       "\<not> check_token (tokens ps) ''IMG''"
    using create_publishers_lidar_handler(2) [OF that(1)] that by simp
  moreover have "imu_packet_handler d' = None"
    if "create_publishers ext ps d = Inr d'" "imu_packet_handler d = None"
       "\<not> check_token (tokens ps) ''IMU''"
    using create_publishers_imu_handler(2) [OF that(1)] that by simp
  ultimately show ?thesis
    by (simp add: on_lidar_packet_msg_def on_imu_packet_msg_def)
qed

text \<open>
  The driver before any configuration, and after configurations with the masks "IMU" and
  "PCL"; the lidar handler of the example would fault if it were called.
\<close>

theorem no_handler_no_op_witness:
  "on_lidar_packet_msg (\<lambda>handler raw d. Inl OutOfBounds) [1, 2, 3] (example_driver 2)
     = Inr (example_driver 2) \<and>
   on_imu_packet_msg (\<lambda>handler raw. 0) [1, 2, 3] (example_driver 2) = example_driver 2 \<and>
   (\<exists>d'. create_publishers example_externals (default_params\<lparr>proc_mask := Some ''IMU''\<rparr>)
           (example_driver 2) = Inr d' \<and>
         on_lidar_packet_msg (\<lambda>handler raw d. Inl OutOfBounds) [1, 2, 3] d' = Inr d') \<and>
   (\<exists>d'. create_publishers example_externals (default_params\<lparr>proc_mask := Some ''PCL''\<rparr>)
           (example_driver 2) = Inr d' \<and>
         on_imu_packet_msg (\<lambda>handler raw. 0) [1, 2, 3] d' = d')"
proof -
  obtain d1 where d1: "create_publishers example_externals
      (default_params\<lparr>proc_mask := Some ''IMU''\<rparr>) (example_driver 2) = Inr d1"
    using example_driver_returns [of 2 "default_params\<lparr>proc_mask := Some ''IMU''\<rparr>" example_externals]
    by (auto simp: default_params_def)
  obtain d2 where d2: "create_publishers example_externals
      (default_params\<lparr>proc_mask := Some ''PCL''\<rparr>) (example_driver 2) = Inr d2"
    using example_driver_returns [of 2 "default_params\<lparr>proc_mask := Some ''PCL''\<rparr>" example_externals]
    by (auto simp: default_params_def)
  have n: "lidar_packet_handler (example_driver 2) = None" "imu_packet_handler (example_driver 2) = None"
    by (simp_all add: example_driver_def)
  show ?thesis
    using no_handler_no_op [of "example_driver 2" "\<lambda>handler raw d. Inl OutOfBounds" "[1, 2, 3]"
            "\<lambda>handler raw. 0" "[1, 2, 3]" example_externals
            "default_params\<lparr>proc_mask := Some ''IMU''\<rparr>" d1]
          no_handler_no_op [of "example_driver 2" "\<lambda>handler raw d. Inl OutOfBounds" "[1, 2, 3]"
            "\<lambda>handler raw. 0" "[1, 2, 3]" example_externals
            "default_params\<lparr>proc_mask := Some ''PCL''\<rparr>" d2]
          d1 d2 n
    by (simp add: tokens_IMU tokens_PCL check_token_def)
qed

subsection \<open>Every inertial packet is published once\<close>

text \<open>
  Claim C10. With an IMU handler in place, an inertial packet makes exactly one
  \<open>publish\<close> call, on \<open>imu_pub\<close>, with the message the handler returns, and changes
  nothing else: the entry point has no filter and no error branch. After a configuration
  whose mask holds IMU the handler is in place and \<open>imu_pub\<close> is the publisher of the
  topic "imu", so a sequence of packets is published one call per packet, in order.
\<close>

theorem imu_packet_published_once:
  "(imu_packet_handler d = Some h \<longrightarrow>
      on_imu_packet_msg run raw d = d\<lparr>published := published d @ [(imu_pub d, run h raw)]\<rparr>) \<and>
   (create_publishers ext ps d0 = Inr d' \<and> check_token (tokens ps) ''IMU'' \<longrightarrow>
      (\<exists>h'. imu_packet_handler d' = Some h' \<and>
            published (foldl (\<lambda>s raw. on_imu_packet_msg run raw s) d' raws) =
              published d' @ map (\<lambda>raw. (Advertised ''imu'' 100, run h' raw)) raws))"
proof -
  have "\<exists>h'. imu_packet_handler d' = Some h' \<and>
            published (foldl (\<lambda>s raw. on_imu_packet_msg run raw s) d' raws) =
              published d' @ map (\<lambda>raw. (Advertised ''imu'' 100, run h' raw)) raws"
    if c: "create_publishers ext ps d0 = Inr d'" and t: "check_token (tokens ps) ''IMU''"
  proof -
    from create_publishers_imu_handler(1) [OF c t]
    obtain h' where h': "imu_packet_handler d' = Some h'" by blast
    have "imu_pub d' = Advertised ''imu'' 100"
      using create_publishers_Inr(7) [OF c] t by simp
    with imu_packets_published [OF h', of run raws] h' show ?thesis by simp
  qed
  then show ?thesis
    by (auto simp: on_imu_packet_msg_Some)
qed

text \<open>
  A driver with a handler, and the default configuration followed by three packets; the
  example handler returns the length of the packet.
\<close>

theorem imu_packet_published_once_witness:
  "on_imu_packet_msg (\<lambda>handler raw. length raw) [1, 2, 3]
     ((example_driver 2)\<lparr>imu_pub := Advertised ''imu'' 100,
        imu_packet_handler := Some (example_handler [] (- 37000000000))\<rparr>) =
     (example_driver 2)\<lparr>imu_pub := Advertised ''imu'' 100,
        imu_packet_handler := Some (example_handler [] (- 37000000000)),
        published := [(Advertised ''imu'' 100, 3)]\<rparr> \<and>
   (\<exists>d'. create_publishers example_externals default_params (example_driver 2) = Inr d' \<and>
      published (foldl (\<lambda>s raw. on_imu_packet_msg (\<lambda>handler raw. length raw) raw s) d'
                   [[1, 2, 3], [], [4]]) =
        [(Advertised ''imu'' 100, 3), (Advertised ''imu'' 100, 0), (Advertised ''imu'' 100, 1)])"
proof -
  obtain d1 where d1: "create_publishers example_externals default_params (example_driver 2) = Inr d1"
    using example_driver_returns [of 2 default_params example_externals]
    by (auto simp: default_params_def)
  have p: "published d1 = []"
    using create_publishers_Inr(3) [OF d1] by (simp add: example_driver_def)
  show ?thesis
    using imu_packet_published_once [of
            "(example_driver 2)\<lparr>imu_pub := Advertised ''imu'' 100,
               imu_packet_handler := Some (example_handler [] (- 37000000000))\<rparr>"
            "example_handler [] (- 37000000000)" "\<lambda>handler raw. length raw" "[1, 2, 3]"
            example_externals default_params "example_driver 2" d1 "[[1, 2, 3], [], [4]]"]
          d1 p
    by (auto simp: tokens_default check_token_def example_driver_def)
qed

end
